theory Spec2Isabelle
  imports Complex_Main "HOL-Library.Sublist"
begin

section \<open>Python values, strings and exceptions\<close>

text \<open>
  A feature value is a Python \<^verbatim>\<open>int\<close> (counts, 0/1 flags) or a \<^verbatim>\<open>float\<close> (the two
  \<^verbatim>\<open>math.log\<close> features and the classifier's probability). A float is read as the
  real number it denotes. The one float operation that rounds and whose result the
  program prints, the product \<^verbatim>\<open>proba*100\<close>, is modelled with its rounding
  (\<open>double_mul\<close> below); \<^verbatim>\<open>math.log\<close> is read as the exact logarithm. URLs are
  ASCII strings, so \<^verbatim>\<open>str.lower\<close>, \<^verbatim>\<open>str.isdigit\<close> and \<^verbatim>\<open>\d\<close> act on ASCII letters
  and digits only.
\<close>

datatype pyval = PInt int | PFloat real

datatype exn = ValueError string | KeyError string

type_synonym dict = "string \<rightharpoonup> pyval"

type_synonym vector = "(string \<times> pyval) list"

type_synonym classifier = "vector \<Rightarrow> real"

text \<open>Truthiness of a number (\<^verbatim>\<open>if x:\<close>) and the comparison \<^verbatim>\<open>x > 2\<close>.\<close>

fun truthy :: "pyval \<Rightarrow> bool" where
  "truthy (PInt n) = (n \<noteq> 0)"
| "truthy (PFloat x) = (x \<noteq> 0)"

fun py_gt :: "pyval \<Rightarrow> int \<Rightarrow> bool" where
  "py_gt (PInt n) k = (n > k)"
| "py_gt (PFloat x) k = (x > real_of_int k)"

text \<open>\<^verbatim>\<open>int(b)\<close> for a boolean \<open>b\<close>.\<close>

definition int_of_bool :: "bool \<Rightarrow> int" where
  "int_of_bool b = (if b then 1 else 0)"

text \<open>\<^verbatim>\<open>int(x)\<close> for a float: truncation towards zero.\<close>

definition py_int :: "real \<Rightarrow> int" where
  "py_int x = (if x < 0 then \<lceil>x\<rceil> else \<lfloor>x\<rfloor>)"

text \<open>
  \<^verbatim>\<open>a * b\<close> on two floats (IEEE 754 binary64): the exact product rounded to the nearest
  double, ties to the even mantissa. \<open>double_exponent x\<close> is the exponent of the last
  mantissa bit of the doubles around \<open>x\<close> (53-bit mantissa, least exponent \<open>-1074\<close> for
  the subnormal numbers). Overflow to infinity is not modelled: the products at hand are
  probabilities times 100.
\<close>

definition round_half_even :: "real \<Rightarrow> int" where
  "round_half_even y =
     (let f = \<lfloor>y\<rfloor>
      in if y - of_int f < 1 / 2 then f
         else if y - of_int f > 1 / 2 then f + 1
         else if even f then f else f + 1)"

definition double_exponent :: "real \<Rightarrow> int" where
  "double_exponent x = max (- 1074) (\<lfloor>log 2 \<bar>x\<bar>\<rfloor> - 52)"

definition round_double :: "real \<Rightarrow> real" where
  "round_double x =
     (if x = 0 then 0
      else let e = double_exponent x
           in of_int (round_half_even (x / 2 powi e)) * 2 powi e)"

definition double_mul :: "real \<Rightarrow> real \<Rightarrow> real" where
  "double_mul a b = round_double (a * b)"

definition py_lower_char :: "char \<Rightarrow> char" where
  "py_lower_char c =
     (let n = (of_char c :: nat) in if 65 \<le> n \<and> n \<le> 90 then char_of (n + 32) else c)"

definition py_lower :: "string \<Rightarrow> string" where
  "py_lower s = map py_lower_char s"

text \<open>\<^verbatim>\<open>s.count(c)\<close> for a one-character needle \<open>c\<close>.\<close>

definition count_char :: "char \<Rightarrow> string \<Rightarrow> nat" where
  "count_char c s = length (filter (\<lambda>x. x = c) s)"

text \<open>\<^verbatim>\<open>w in s\<close> on strings: \<open>w\<close> occurs in \<open>s\<close> as a contiguous substring.\<close>

definition py_in :: "string \<Rightarrow> string \<Rightarrow> bool" where
  "py_in w s = sublist w s"

definition is_digit :: "char \<Rightarrow> bool" where
  "is_digit c = (let n = (of_char c :: nat) in 48 \<le> n \<and> n \<le> 57)"

definition is_lower_hex :: "char \<Rightarrow> bool" where
  "is_lower_hex c = (let n = (of_char c :: nat) in (48 \<le> n \<and> n \<le> 57) \<or> (97 \<le> n \<and> n \<le> 102))"

text \<open>\<^verbatim>\<open>re.search(r'[0-9a-f]{8}', s)\<close>: some position starts eight characters of the class.\<close>

fun re_search_hex8 :: "string \<Rightarrow> bool" where
  "re_search_hex8 [] = False"
| "re_search_hex8 (c # cs) =
     ((length (take 8 (c # cs)) = 8 \<and> list_all is_lower_hex (take 8 (c # cs))) \<or> re_search_hex8 cs)"

text \<open>
  \<^verbatim>\<open>re.match(r'\d+\.\d+\.\d+\.\d+', s)\<close>, anchored at the start. A digit run is followed
  by a dot or by the end of the pattern, so the greedy match never has to back off.
\<close>

definition re_digits :: "string \<Rightarrow> string option" where
  "re_digits s = (if takeWhile is_digit s = [] then None else Some (dropWhile is_digit s))"

fun re_dot :: "string \<Rightarrow> string option" where
  "re_dot [] = None"
| "re_dot (c # cs) = (if c = CHR ''.'' then Some cs else None)"

definition re_match_ip :: "string \<Rightarrow> bool" where
  "re_match_ip s =
     (Option.bind (Option.bind (Option.bind (Option.bind (Option.bind (Option.bind
        (re_digits s) re_dot) re_digits) re_dot) re_digits) re_dot) re_digits \<noteq> None)"

text \<open>\<^verbatim>\<open>str(n)\<close> for an integer.\<close>

definition digit_char :: "nat \<Rightarrow> char" where
  "digit_char n = char_of (48 + n)"

function str_nat :: "nat \<Rightarrow> string" where
  "str_nat n = (if n < 10 then [digit_char n] else str_nat (n div 10) @ [digit_char (n mod 10)])"
  by pat_completeness auto
termination
  by (relation "measure (\<lambda>n. n)") auto

declare str_nat.simps [simp del]

definition str_int :: "int \<Rightarrow> string" where
  "str_int i = (if i < 0 then CHR ''-'' # str_nat (nat (- i)) else str_nat (nat i))"

text \<open>\<^verbatim>\<open>str(e)\<close> for an exception: a \<^verbatim>\<open>KeyError\<close> prints its key quoted.\<close>

fun str_exn :: "exn \<Rightarrow> string" where
  "str_exn (ValueError msg) = msg"
| "str_exn (KeyError k) = [CHR 0x27] @ k @ [CHR 0x27]"

text \<open>\<^verbatim>\<open>d.get(k, default)\<close> and \<^verbatim>\<open>d.update({k1: v1, ...})\<close> (a later binding replaces an earlier one).\<close>

definition dict_get :: "dict \<Rightarrow> string \<Rightarrow> pyval \<Rightarrow> pyval" where
  "dict_get m k dflt = (case m k of None \<Rightarrow> dflt | Some v \<Rightarrow> v)"

fun dict_update :: "dict \<Rightarrow> vector \<Rightarrow> dict" where
  "dict_update m [] = m"
| "dict_update m ((k, v) # kvs) = dict_update (m(k \<mapsto> v)) kvs"

text \<open>
  \<^verbatim>\<open>pd.DataFrame([features])[names]\<close>: the one-row frame restricted to the columns
  \<open>names\<close>, in that order; pandas raises \<^verbatim>\<open>KeyError\<close> when a name is not a column.
\<close>

fun first_missing :: "dict \<Rightarrow> string list \<Rightarrow> string option" where
  "first_missing m [] = None"
| "first_missing m (n # ns) = (case m n of None \<Rightarrow> Some n | Some v \<Rightarrow> first_missing m ns)"

definition select_columns :: "dict \<Rightarrow> string list \<Rightarrow> exn + vector" where
  "select_columns m names =
     (case first_missing m names of
        Some n \<Rightarrow> Inl (KeyError n)
      | None \<Rightarrow> Inr (map (\<lambda>n. (n, dict_get m n (PInt 0))) names))"

section \<open>Library functions the program calls\<close>

text \<open>
  \<^verbatim>\<open>urllib.parse.urlparse\<close>, \<^verbatim>\<open>tldextract.extract\<close> and \<^verbatim>\<open>urllib.parse.parse_qs\<close> are
  not part of the repository. The program is modelled over a record of them, so every
  theorem stated for an arbitrary \<open>L\<close> holds whatever these functions return.
  \<^verbatim>\<open>urlparse\<close> may raise (\<^verbatim>\<open>ValueError\<close> on a malformed bracketed host); the other two
  return a value for every string. \<open>float_str\<close> is \<^verbatim>\<open>str\<close> on a float.
\<close>

record parse_result =
  scheme :: string
  netloc :: string
  path :: string
  query :: string

record extract_result =
  ext_subdomain :: string
  ext_domain :: string
  ext_suffix :: string

record libs =
  urlparse :: "string \<Rightarrow> exn + parse_result"
  tldextract :: "string \<Rightarrow> extract_result"
  parse_qs :: "string \<Rightarrow> (string \<times> string list) list"
  float_str :: "real \<Rightarrow> string"

fun py_str :: "libs \<Rightarrow> pyval \<Rightarrow> string" where
  "py_str L (PInt n) = str_int n"
| "py_str L (PFloat x) = float_str L x"

section \<open>phishdetect.py: class PhishingDetector\<close>

text \<open>
  The attributes \<^verbatim>\<open>__init__\<close> sets. \<open>feature_names\<close> is the Feature Schema read from
  \<^verbatim>\<open>model/feature_names.json\<close>; the three word lists are literals of the source.
\<close>

record detector =
  feature_names :: "string list"
  sensitive_words :: "string list"
  official_domains :: "string list"
  known_brands :: "string list"

definition PhishingDetector :: "string list \<Rightarrow> detector" where
  "PhishingDetector names =
     \<lparr> feature_names = names,
       sensitive_words =
         [''login'', ''signin'', ''verify'', ''account'', ''secure'',
          ''bank'', ''payment'', ''update'', ''confirm'', ''password''],
       official_domains =
         [''paypal.com'', ''www.paypal.com'', ''paypalobjects.com'',
          ''amazon.com'', ''www.amazon.com'', ''amazonaws.com'',
          ''apple.com'', ''www.apple.com'', ''icloud.com'',
          ''google.com'', ''www.google.com'', ''googleapis.com'',
          ''microsoft.com'', ''www.microsoft.com'', ''live.com'',
          ''ebay.com'', ''www.ebay.com'',
          ''netflix.com'', ''www.netflix.com'',
          ''bankofamerica.com'', ''www.bankofamerica.com'',
          ''wellsfargo.com'', ''www.wellsfargo.com'',
          ''chase.com'', ''www.chase.com''],
       known_brands =
         [''paypal'', ''amazon'', ''apple'', ''google'', ''microsoft'',
          ''ebay'', ''netflix'', ''bankofamerica'', ''wellsfargo'', ''chase''] \<rparr>"

text \<open>\<^verbatim>\<open>{name: 0 for name in names}\<close>\<close>

definition all_default :: "string list \<Rightarrow> dict" where
  "all_default names = map_of (map (\<lambda>name. (name, PInt 0)) names)"

definition default_features :: "detector \<Rightarrow> dict" where
  "default_features d = all_default (feature_names d)"

text \<open>\<^verbatim>\<open>f"{ext.domain}.{ext.suffix}"\<close>\<close>

definition base_domain :: "extract_result \<Rightarrow> string" where
  "base_domain ext = ext_domain ext @ ''.'' @ ext_suffix ext"

definition is_official :: "libs \<Rightarrow> detector \<Rightarrow> string \<Rightarrow> bool" where
  "is_official L d hostname =
     (let ext = tldextract L (py_lower hostname)
      in base_domain ext \<in> set (official_domains d) \<or> py_lower hostname \<in> set (official_domains d))"

text \<open>The \<^verbatim>\<open>for brand in ...\<close> loop with its early \<^verbatim>\<open>return 1\<close>.\<close>

fun brand_loop :: "string \<Rightarrow> string \<Rightarrow> string list \<Rightarrow> int" where
  "brand_loop hostname main_domain [] = 0"
| "brand_loop hostname main_domain (brand # brands) =
     (if py_in brand hostname \<and> \<not> py_in brand main_domain then 1
      else brand_loop hostname main_domain brands)"

definition check_brand_usage :: "libs \<Rightarrow> detector \<Rightarrow> string \<Rightarrow> int" where
  "check_brand_usage L d hostname =
     (if is_official L d hostname then 0
      else let ext = tldextract L (py_lower hostname);
               main_domain = base_domain ext
           in brand_loop (py_lower hostname) main_domain (known_brands d))"

text \<open>\<^verbatim>\<open>sum(word in text for word in words)\<close>: a sum of booleans.\<close>

definition count_words_in :: "string list \<Rightarrow> string \<Rightarrow> int" where
  "count_words_in ws text = sum_list (map (\<lambda>word. int_of_bool (py_in word text)) ws)"

text \<open>
  The 24 entries that the dictionary literals of \<^verbatim>\<open>extract_features\<close> and of
  \<^verbatim>\<open>extract_all_features\<close> have in common, from \<open>NumDots\<close> to \<open>UrlLengthRT\<close>; \<open>p\<close> is the
  path as the caller holds it.
\<close>

definition url_features :: "libs \<Rightarrow> string \<Rightarrow> parse_result \<Rightarrow> extract_result \<Rightarrow> string \<Rightarrow> string \<Rightarrow> vector" where
  "url_features L url parsed ext hostname p =
     [(''NumDots'', PInt (int (count_char CHR ''.'' url))),
      (''SubdomainLevel'', PInt (int (count_char CHR ''.'' (ext_subdomain ext)) + 1)),
      (''PathLevel'', PInt (if p \<noteq> [] then int (count_char CHR ''/'' p) - 1 else 0)),
      (''UrlLength'', PInt (int (length url))),
      (''NumDash'', PInt (int (count_char CHR ''-'' url))),
      (''NumDashInHostname'', PInt (int (count_char CHR ''-'' hostname))),
      (''AtSymbol'', PInt (int_of_bool (CHR ''@'' \<in> set url))),
      (''TildeSymbol'', PInt (int_of_bool (CHR ''~'' \<in> set url))),
      (''NumUnderscore'', PInt (int (count_char CHR ''_'' url))),
      (''NumPercent'', PInt (int (count_char CHR ''%'' url))),
      (''NumQueryComponents'', PInt (int (length (parse_qs L (query parsed))))),
      (''NumAmpersand'', PInt (int (count_char CHR ''&'' url))),
      (''NumHash'', PInt (int (count_char CHR ''#'' url))),
      (''NumNumericChars'', PInt (int (length (filter is_digit url)))),
      (''NoHttps'', PInt (int_of_bool (scheme parsed \<noteq> ''https''))),
      (''RandomString'', PInt (int_of_bool (re_search_hex8 url))),
      (''IpAddress'', PInt (int_of_bool (re_match_ip hostname))),
      (''HttpsInHostname'', PInt (int_of_bool (py_in ''https'' hostname))),
      (''HostnameLength'', PInt (int (length hostname))),
      (''PathLength'', PInt (int (length p))),
      (''QueryLength'', PInt (int (length (query parsed)))),
      (''DoubleSlashInPath'', PInt (int_of_bool (py_in ''//'' p))),
      (''SubdomainLevelRT'', PFloat (ln (real (max 1 (count_char CHR ''.'' (ext_subdomain ext) + 1))))),
      (''UrlLengthRT'', PFloat (ln (real (max 1 (length url)))))]"

text \<open>The keys of the two dictionary literals: the names the extractors compute.\<close>

definition computed_names :: "string list" where
  "computed_names =
     [''NumDots'', ''SubdomainLevel'', ''PathLevel'', ''UrlLength'', ''NumDash'',
      ''NumDashInHostname'', ''AtSymbol'', ''TildeSymbol'', ''NumUnderscore'', ''NumPercent'',
      ''NumQueryComponents'', ''NumAmpersand'', ''NumHash'', ''NumNumericChars'', ''NoHttps'',
      ''RandomString'', ''IpAddress'', ''HttpsInHostname'', ''HostnameLength'', ''PathLength'',
      ''QueryLength'', ''DoubleSlashInPath'', ''SubdomainLevelRT'', ''UrlLengthRT'',
      ''IsOfficialDomain'', ''BrandSpoofing'', ''NumSensitiveWords'']"

text \<open>
  The dictionary literal that \<^verbatim>\<open>extract_features\<close> passes to \<^verbatim>\<open>features.update\<close>, with
  the local variables it is built from.
\<close>

definition feature_updates :: "libs \<Rightarrow> detector \<Rightarrow> string \<Rightarrow> parse_result \<Rightarrow> vector" where
  "feature_updates L d url parsed =
     (let ext = tldextract L url;
          hostname = py_lower (netloc parsed);
          p = py_lower (path parsed);
          is_off = is_official L d hostname
      in url_features L url parsed ext hostname p @
         [(''IsOfficialDomain'', PInt (int_of_bool is_off)),
          (''BrandSpoofing'',
             PInt (if ''BrandSpoofing'' \<in> set (feature_names d)
                   then check_brand_usage L d hostname else 0)),
          (''NumSensitiveWords'',
             PInt (if is_off then 0 else count_words_in (sensitive_words d) (py_lower url)))])"

text \<open>
  \<^verbatim>\<open>extract_features\<close>: the \<^verbatim>\<open>try\<close> block either completes, and \<^verbatim>\<open>features.update\<close> runs
  with the whole literal, or \<^verbatim>\<open>urlparse\<close> raises before anything is updated and the
  \<^verbatim>\<open>except\<close> clause leaves the copy of the defaults untouched.
\<close>

definition extract_features :: "libs \<Rightarrow> detector \<Rightarrow> string \<Rightarrow> dict" where
  "extract_features L d url =
     (let features = default_features d
      in case urlparse L url of
           Inl e \<Rightarrow> features
         | Inr parsed \<Rightarrow> dict_update features (feature_updates L d url parsed))"

text \<open>
  The result dictionary of \<^verbatim>\<open>analyze\<close>. \<open>result\<close> stands for the two strings the source
  returns under \<^verbatim>\<open>"result"\<close>; \<open>confidence\<close> is the string under \<^verbatim>\<open>"confidence"\<close>.
\<close>

datatype verdict = Legitimate | Phishing

record analysis =
  result :: verdict
  confidence :: string
  threats :: "string list"
  features :: dict

datatype outcome = Report analysis | Error string

text \<open>\<^verbatim>\<open>min(99, int(proba*100))\<close>\<close>

definition confidence_percent :: "real \<Rightarrow> int" where
  "confidence_percent proba = min 99 (py_int (double_mul proba 100))"

definition normalize_url :: "string \<Rightarrow> string" where
  "normalize_url url =
     (if prefix ''http://'' url \<or> prefix ''https://'' url then url else ''http://'' @ url)"

text \<open>
  The three \<^verbatim>\<open>if\<close> statements that fill \<^verbatim>\<open>threats\<close>, given the value read for \<open>NoHttps\<close>.
  \<^verbatim>\<open>features.get('NumSensitiveWords', 0) > 2\<close> is false for an absent key, so the
  subscript in the f-string only runs on a present one.
\<close>

definition threat_list :: "libs \<Rightarrow> dict \<Rightarrow> pyval \<Rightarrow> string list" where
  "threat_list L fs no_https =
     (if truthy no_https then [''No HTTPS''] else []) @
     (case fs ''NumSensitiveWords'' of
        None \<Rightarrow> []
      | Some n \<Rightarrow> if py_gt n 2 then [py_str L n @ '' sensitive words''] else []) @
     (if truthy (dict_get fs ''BrandSpoofing'' (PInt 0)) then [''Brand spoofing detected''] else [])"

text \<open>
  The body of the \<^verbatim>\<open>try\<close> in \<^verbatim>\<open>analyze\<close>. The second component lists the vectors handed
  to \<^verbatim>\<open>self.model.predict_proba\<close>, in call order; \<open>score\<close> is \<^verbatim>\<open>predict_proba(...)[0][1]\<close>.
  \<^verbatim>\<open>features['NoHttps']\<close> is a subscript and raises \<^verbatim>\<open>KeyError\<close> on an absent key.
\<close>

definition analyze_try :: "libs \<Rightarrow> detector \<Rightarrow> classifier \<Rightarrow> string \<Rightarrow> (exn + analysis) \<times> vector list" where
  "analyze_try L d score url0 =
     (let url = normalize_url url0;
          fs = extract_features L d url
      in if truthy (dict_get fs ''IsOfficialDomain'' (PInt 0))
         then (Inr \<lparr> result = Legitimate, confidence = ''100%'', threats = [], features = fs \<rparr>, [])
         else case select_columns fs (feature_names d) of
                Inl e \<Rightarrow> (Inl e, [])
              | Inr features_df \<Rightarrow>
                  (let proba = score features_df;
                       is_phishing = (proba > 7 / 10)
                   in case fs ''NoHttps'' of
                        None \<Rightarrow> (Inl (KeyError ''NoHttps''), [features_df])
                      | Some no_https \<Rightarrow>
                          (Inr \<lparr> result = (if is_phishing then Phishing else Legitimate),
                                 confidence = str_int (confidence_percent proba) @ ''%'',
                                 threats = threat_list L fs no_https,
                                 features = fs \<rparr>, [features_df])))"

text \<open>\<^verbatim>\<open>analyze\<close>: \<^verbatim>\<open>except Exception as e: return {"error": str(e)}\<close>.\<close>

definition analyze :: "libs \<Rightarrow> detector \<Rightarrow> classifier \<Rightarrow> string \<Rightarrow> outcome \<times> vector list" where
  "analyze L d score url =
     (case analyze_try L d score url of
        (Inl e, calls) \<Rightarrow> (Error (str_exn e), calls)
      | (Inr r, calls) \<Rightarrow> (Report r, calls))"

section \<open>phishdetect-fixed: class URLFeatureExtractor and function predict-phishing\<close>

record extractor =
  expected_features :: "string list"
  fx_sensitive_words :: "string list"
  fx_official_domains :: "string list"

definition URLFeatureExtractor :: "string list \<Rightarrow> extractor" where
  "URLFeatureExtractor names =
     \<lparr> expected_features = names,
       fx_sensitive_words =
         [''login'', ''signin'', ''verify'', ''account'', ''secure'',
          ''bank'', ''payment'', ''update'', ''confirm'', ''password''],
       fx_official_domains =
         [''paypal.com'', ''www.paypal.com'',
          ''amazon.com'', ''www.amazon.com'',
          ''apple.com'', ''www.apple.com'',
          ''google.com'', ''www.google.com'',
          ''microsoft.com'', ''www.microsoft.com''] \<rparr>"

definition is_official_domain :: "extractor \<Rightarrow> string \<Rightarrow> bool" where
  "is_official_domain x hostname = (py_lower hostname \<in> set (fx_official_domains x))"

definition brand_names :: "string list" where
  "brand_names = [''paypal'', ''amazon'', ''apple'', ''google'', ''microsoft'']"

definition check_brand_spoofing :: "libs \<Rightarrow> extractor \<Rightarrow> string \<Rightarrow> int" where
  "check_brand_spoofing L x hostname =
     (if is_official_domain x hostname then 0
      else let ext = tldextract L (py_lower hostname);
               main_domain = base_domain ext
           in brand_loop (py_lower hostname) main_domain brand_names)"

definition all_feature_updates :: "libs \<Rightarrow> extractor \<Rightarrow> string \<Rightarrow> parse_result \<Rightarrow> vector" where
  "all_feature_updates L x url parsed =
     (let ext = tldextract L url;
          hostname = py_lower (netloc parsed);
          p = path parsed;
          is_off = is_official_domain x hostname
      in url_features L url parsed ext hostname p @
         [(''IsOfficialDomain'', PInt (int_of_bool is_off)),
          (''BrandSpoofing'', PInt (if is_off then 0 else check_brand_spoofing L x hostname)),
          (''NumSensitiveWords'',
             PInt (if is_off then 0 else count_words_in (fx_sensitive_words x) (py_lower url)))])"

definition extract_all_features :: "libs \<Rightarrow> extractor \<Rightarrow> string \<Rightarrow> dict" where
  "extract_all_features L x url =
     (case urlparse L url of
        Inl e \<Rightarrow> all_default (expected_features x)
      | Inr parsed \<Rightarrow>
          dict_update (all_default (expected_features x)) (all_feature_updates L x url parsed))"

text \<open>
  \<^verbatim>\<open>predict_phishing\<close>, whose result dictionary names the list \<^verbatim>\<open>"threat_indicators"\<close>
  (field \<open>threats\<close> here). It reads \<open>NoHttps\<close> with \<^verbatim>\<open>features.get('NoHttps', 0)\<close>, and the
  caller, not the function, prepends \<^verbatim>\<open>http://\<close>. Loading the model file is left out.
\<close>

definition predict_try :: "libs \<Rightarrow> extractor \<Rightarrow> classifier \<Rightarrow> string \<Rightarrow> (exn + analysis) \<times> vector list" where
  "predict_try L x score url =
     (let fs = extract_all_features L x url
      in if truthy (dict_get fs ''IsOfficialDomain'' (PInt 0))
         then (Inr \<lparr> result = Legitimate, confidence = ''100%'', threats = [], features = fs \<rparr>, [])
         else case select_columns fs (expected_features x) of
                Inl e \<Rightarrow> (Inl e, [])
              | Inr features_df \<Rightarrow>
                  (let probability = score features_df;
                       prediction = (if probability > 7 / 10 then 1 else 0 :: int)
                   in (Inr \<lparr> result = (if prediction = 1 then Phishing else Legitimate),
                              confidence = str_int (confidence_percent probability) @ ''%'',
                              threats = threat_list L fs (dict_get fs ''NoHttps'' (PInt 0)),
                              features = fs \<rparr>, [features_df])))"

definition predict_phishing :: "libs \<Rightarrow> extractor \<Rightarrow> classifier \<Rightarrow> string \<Rightarrow> outcome \<times> vector list" where
  "predict_phishing L x score url =
     (case predict_try L x score url of
        (Inl e, calls) \<Rightarrow> (Error (str_exn e), calls)
      | (Inr r, calls) \<Rightarrow> (Report r, calls))"

section \<open>Reference behaviour of the library functions\<close>

text \<open>
  Executable stand-ins for the three library functions, used to run the program on
  concrete URLs. They follow the libraries on printable ASCII input:
  \<^item> \<open>std_urlparse\<close> is \<^verbatim>\<open>urlsplit\<close> followed by the parameter split of \<^verbatim>\<open>urlparse\<close>:
    scheme up to the first colon, network location after \<^verbatim>\<open>//\<close> up to the first of
    \<^verbatim>\<open>/ ? #\<close>, \<^verbatim>\<open>ValueError\<close> for an unbalanced square bracket in it, then fragment,
    query and parameters cut off the path;
  \<^item> \<open>std_tldextract psl\<close> takes the host out of its argument and splits it at the
    longest suffix listed in \<open>psl\<close> (the public suffix list as plain suffixes; wildcard
    rules and IP literals are not modelled);
  \<^item> \<open>std_parse_qs\<close> groups the non-blank values of a query by key (percent-decoding is
    not modelled).
  The program prints no float (the only number it formats is \<open>NumSensitiveWords\<close>, an
  int by \<open>sensitive_words_is_int\<close> below), so \<open>float_str\<close> of \<open>std_libs\<close> is never applied.
\<close>

definition is_alpha :: "char \<Rightarrow> bool" where
  "is_alpha c = (let n = (of_char c :: nat) in (65 \<le> n \<and> n \<le> 90) \<or> (97 \<le> n \<and> n \<le> 122))"

definition scheme_char :: "char \<Rightarrow> bool" where
  "scheme_char c = (is_alpha c \<or> is_digit c \<or> c \<in> set ''+-.'')"

definition split_scheme :: "string \<Rightarrow> string \<times> string" where
  "split_scheme url =
     (let pre = takeWhile (\<lambda>c. c \<noteq> CHR '':'') url
      in if length pre < length url \<and> pre \<noteq> [] \<and> is_alpha (hd pre) \<and> list_all scheme_char pre
         then (py_lower pre, drop (length pre + 1) url)
         else ([], url))"

definition split_params :: "string \<Rightarrow> string" where
  "split_params p =
     (let k = length p - length (takeWhile (\<lambda>c. c \<noteq> CHR ''/'') (rev p))
      in take k p @ takeWhile (\<lambda>c. c \<noteq> CHR '';'') (drop k p))"

definition std_urlparse :: "string \<Rightarrow> exn + parse_result" where
  "std_urlparse url0 =
     (let (sch, url1) = split_scheme url0;
          has_netloc = prefix ''//'' url1;
          nl = (if has_netloc then takeWhile (\<lambda>c. c \<notin> set ''/?#'') (drop 2 url1) else []);
          url2 = (if has_netloc then dropWhile (\<lambda>c. c \<notin> set ''/?#'') (drop 2 url1) else url1)
      in if (CHR ''['' \<in> set nl \<and> CHR '']'' \<notin> set nl) \<or> (CHR '']'' \<in> set nl \<and> CHR ''['' \<notin> set nl)
         then Inl (ValueError ''Invalid IPv6 URL'')
         else
           (let url3 = takeWhile (\<lambda>c. c \<noteq> CHR ''#'') url2;
                p = takeWhile (\<lambda>c. c \<noteq> CHR ''?'') url3;
                q = drop (length p + 1) url3
            in Inr \<lparr> scheme = sch, netloc = nl, path = split_params p, query = q \<rparr>))"

fun split_on :: "char \<Rightarrow> string \<Rightarrow> string list" where
  "split_on c [] = [[]]"
| "split_on c (x # xs) =
     (if x = c then [] # split_on c xs
      else case split_on c xs of [] \<Rightarrow> [[x]] | w # ws \<Rightarrow> (x # w) # ws)"

fun join :: "string \<Rightarrow> string list \<Rightarrow> string" where
  "join sep [] = []"
| "join sep [w] = w"
| "join sep (w # v # ws) = w @ sep @ join sep (v # ws)"

fun split_suffix :: "string list \<Rightarrow> string list \<Rightarrow> string list \<times> string list" where
  "split_suffix psl [] = ([], [])"
| "split_suffix psl (l # ls) =
     (if join ''.'' (l # ls) \<in> set psl then ([], l # ls)
      else case split_suffix psl ls of (front, suf) \<Rightarrow> (l # front, suf))"

definition lenient_netloc :: "string \<Rightarrow> string" where
  "lenient_netloc url =
     (let (sch, rest) = split_scheme url;
          u1 = (if sch \<noteq> [] \<and> prefix ''//'' rest then drop 2 rest
                else if prefix ''//'' url then drop 2 url else url);
          u2 = takeWhile (\<lambda>c. c \<notin> set ''/?#'') u1;
          u3 = rev (takeWhile (\<lambda>c. c \<noteq> CHR ''@'') (rev u2));
          u4 = takeWhile (\<lambda>c. c \<noteq> CHR '':'') u3
      in rev (dropWhile (\<lambda>c. c = CHR ''.'') (rev u4)))"

definition std_tldextract :: "string list \<Rightarrow> string \<Rightarrow> extract_result" where
  "std_tldextract psl url =
     (let labels = split_on CHR ''.'' (py_lower (lenient_netloc url));
          (front, suf) = split_suffix psl labels
      in \<lparr> ext_subdomain = join ''.'' (butlast front),
           ext_domain = (if front = [] then [] else last front),
           ext_suffix = join ''.'' suf \<rparr>)"

fun add_value :: "string \<Rightarrow> string \<Rightarrow> (string \<times> string list) list \<Rightarrow> (string \<times> string list) list" where
  "add_value k v [] = [(k, [v])]"
| "add_value k v ((k', vs) # kvs) =
     (if k = k' then (k', vs @ [v]) # kvs else (k', vs) # add_value k v kvs)"

definition std_parse_qs :: "string \<Rightarrow> (string \<times> string list) list" where
  "std_parse_qs qs =
     foldl (\<lambda>acc name_value.
              let k = takeWhile (\<lambda>c. c \<noteq> CHR ''='') name_value;
                  v = drop (length k + 1) name_value
              in if v = [] then acc else add_value k v acc)
       [] (split_on CHR ''&'' qs)"

definition sample_psl :: "string list" where
  "sample_psl = [''com'', ''org'', ''net'', ''uk'', ''co.uk'']"

definition std_libs :: libs where
  "std_libs = \<lparr> urlparse = std_urlparse, tldextract = std_tldextract sample_psl,
                parse_qs = std_parse_qs, float_str = (\<lambda>x. ''float'') \<rparr>"

text \<open>
  A Feature Schema for the concrete runs: columns of the phishing data set the model is
  trained on that the extractor computes, one column it does not compute, and the
  optional \<open>BrandSpoofing\<close> and \<open>IsOfficialDomain\<close>.
\<close>

definition sample_schema :: "string list" where
  "sample_schema =
     [''NumDots'', ''SubdomainLevel'', ''UrlLength'', ''NoHttps'', ''NumSensitiveWords'',
      ''PctExtHyperlinks'', ''BrandSpoofing'', ''IsOfficialDomain'']"

definition sample_detector :: detector where
  "sample_detector = PhishingDetector sample_schema"

definition sample_extractor :: extractor where
  "sample_extractor = URLFeatureExtractor sample_schema"

text \<open>Three classifiers for the concrete runs: constant probabilities 0.5, 0.7 and 1.0.\<close>

definition score_half :: classifier where
  "score_half v = 1 / 2"

definition score_threshold :: classifier where
  "score_threshold v = 7 / 10"

definition score_one :: classifier where
  "score_one v = 1"

text \<open>The double nearest to 0.15, which is \<open>5404319552844595 / 2^55\<close>, as a constant probability.\<close>

definition score_near_015 :: classifier where
  "score_near_015 v = 5404319552844595 / 36028797018963968"

text \<open>
  The vector of the run on \<^verbatim>\<open>http://secure-login-verify.example.com\<close> under
  \<open>sample_schema\<close>.
\<close>

definition verify_vector :: vector where
  "verify_vector =
     [(''NumDots'', PInt 2), (''SubdomainLevel'', PInt 1), (''UrlLength'', PInt 38),
      (''NoHttps'', PInt 1), (''NumSensitiveWords'', PInt 3), (''PctExtHyperlinks'', PInt 0),
      (''BrandSpoofing'', PInt 0), (''IsOfficialDomain'', PInt 0)]"

section \<open>Notions used to state the properties\<close>

text \<open>The value a returned result holds for a feature name; an error result holds none.\<close>

definition result_feature :: "outcome \<Rightarrow> string \<Rightarrow> pyval option" where
  "result_feature out n = (case out of Report r \<Rightarrow> features r n | Error msg \<Rightarrow> None)"

text \<open>The list of threats of a returned result.\<close>

definition result_threats :: "outcome \<Rightarrow> string list option" where
  "result_threats out = (case out of Report r \<Rightarrow> Some (threats r) | Error msg \<Rightarrow> None)"

text \<open>
  What \<^verbatim>\<open>analyze\<close> relies on from \<^verbatim>\<open>urlparse\<close> after it has prepended \<^verbatim>\<open>http://\<close>: a
  string that starts with \<^verbatim>\<open>http://\<close>, when it parses, parses with scheme \<^verbatim>\<open>http\<close>.
\<close>

definition keeps_http_scheme :: "libs \<Rightarrow> bool" where
  "keeps_http_scheme L =
     (\<forall>s parsed. urlparse L (''http://'' @ s) = Inr parsed \<longrightarrow> scheme parsed = ''http'')"

section \<open>Auxiliary facts\<close>

lemma py_lower_char_idem: "py_lower_char (py_lower_char c) = py_lower_char c"
  by (cases c) (auto simp: py_lower_char_def Let_def)

lemma py_lower_idem: "py_lower (py_lower s) = py_lower s"
  by (simp add: py_lower_def py_lower_char_idem)

lemma dict_update_lookup:
  "dict_update m kvs k = (case map_of (rev kvs) k of None \<Rightarrow> m k | Some v \<Rightarrow> Some v)"
proof (induction kvs arbitrary: m)
  case Nil
  show ?case by simp
next
  case (Cons kv kvs)
  obtain k' v' where kv: "kv = (k', v')" by (cases kv)
  show ?case
    unfolding kv dict_update.simps Cons.IH
    by (simp add: map_of_append map_add_def split: option.splits)
qed

lemma dom_dict_update: "dom (dict_update m kvs) = dom m \<union> fst ` set kvs"
proof (induction kvs arbitrary: m)
  case Nil
  show ?case by simp
next
  case (Cons kv kvs)
  obtain k' v' where kv: "kv = (k', v')" by (cases kv)
  show ?case
    unfolding kv dict_update.simps Cons.IH
    by auto
qed

lemma all_default_lookup: "all_default names n = (if n \<in> set names then Some (PInt 0) else None)"
  unfolding all_default_def
  by (induction names) auto

lemma dom_all_default: "dom (all_default names) = set names"
  by (auto simp: all_default_lookup dom_def)

lemma first_missing_None: "first_missing m names = None \<longleftrightarrow> set names \<subseteq> dom m"
  by (induction names) (auto split: option.splits)

lemma dom_extract_features: "set (feature_names d) \<subseteq> dom (extract_features L d url)"
  by (auto simp: extract_features_def default_features_def Let_def dom_dict_update dom_all_default
           split: sum.splits)

lemma dom_extract_all_features: "set (expected_features x) \<subseteq> dom (extract_all_features L x url)"
  by (auto simp: extract_all_features_def Let_def dom_dict_update dom_all_default
           split: sum.splits)

lemma select_columns_total:
  assumes "set names \<subseteq> dom m"
  shows "select_columns m names = Inr (map (\<lambda>n. (n, dict_get m n (PInt 0))) names)"
  using assms by (simp add: select_columns_def first_missing_None[THEN iffD2])



lemma feature_updates_names: "map fst (feature_updates L d url parsed) = computed_names"
  by (simp add: feature_updates_def url_features_def computed_names_def Let_def)

lemma all_feature_updates_names: "map fst (all_feature_updates L x url parsed) = computed_names"
  by (simp add: all_feature_updates_def url_features_def computed_names_def Let_def)

lemma dict_update_other:
  assumes "n \<notin> fst ` set kvs"
  shows "dict_update m kvs n = m n"
proof -
  have "map_of (rev kvs) n = None"
    using assms by (simp add: map_of_eq_None_iff)
  then show ?thesis by (simp add: dict_update_lookup)
qed

lemma extract_features_other:
  assumes "n \<notin> set computed_names"
  shows "extract_features L d url n = all_default (feature_names d) n"
proof (cases "urlparse L url")
  case (Inl e)
  then show ?thesis by (simp add: extract_features_def default_features_def)
next
  case (Inr parsed)
  have "n \<notin> fst ` set (feature_updates L d url parsed)"
    using assms feature_updates_names[of L d url parsed] by (metis set_map)
  then show ?thesis
    using Inr by (simp add: extract_features_def default_features_def dict_update_other)
qed

lemma extract_all_features_other:
  assumes "n \<notin> set computed_names"
  shows "extract_all_features L x url n = all_default (expected_features x) n"
proof (cases "urlparse L url")
  case (Inl e)
  then show ?thesis by (simp add: extract_all_features_def)
next
  case (Inr parsed)
  have "n \<notin> fst ` set (all_feature_updates L x url parsed)"
    using assms all_feature_updates_names[of L x url parsed] by (metis set_map)
  then show ?thesis
    using Inr by (simp add: extract_all_features_def dict_update_other)
qed

lemma extract_features_official:
  assumes "urlparse L url = Inr parsed"
  shows "extract_features L d url ''IsOfficialDomain'' =
           Some (PInt (int_of_bool (is_official L d (py_lower (netloc parsed)))))"
  using assms
  by (simp add: extract_features_def dict_update_lookup feature_updates_def url_features_def Let_def)

lemma extract_features_no_https:
  assumes "urlparse L url = Inr parsed"
  shows "extract_features L d url ''NoHttps'' = Some (PInt (int_of_bool (scheme parsed \<noteq> ''https'')))"
  using assms
  by (simp add: extract_features_def dict_update_lookup feature_updates_def url_features_def Let_def)

lemma extract_features_url_length:
  assumes "urlparse L url = Inr parsed"
  shows "extract_features L d url ''UrlLength'' = Some (PInt (int (length url)))"
  using assms
  by (simp add: extract_features_def dict_update_lookup feature_updates_def url_features_def Let_def)

lemma extract_features_brand:
  assumes "urlparse L url = Inr parsed"
  shows "extract_features L d url ''BrandSpoofing'' =
           Some (PInt (if ''BrandSpoofing'' \<in> set (feature_names d)
                       then check_brand_usage L d (py_lower (netloc parsed)) else 0))"
  using assms
  by (simp add: extract_features_def dict_update_lookup feature_updates_def url_features_def Let_def)

lemma extract_features_words:
  assumes "urlparse L url = Inr parsed"
  shows "extract_features L d url ''NumSensitiveWords'' =
           Some (PInt (if is_official L d (py_lower (netloc parsed)) then 0
                       else count_words_in (sensitive_words d) (py_lower url)))"
  using assms
  by (simp add: extract_features_def dict_update_lookup feature_updates_def url_features_def Let_def)

lemma sensitive_words_is_int:
  assumes "extract_features L d url ''NumSensitiveWords'' = Some v"
  shows "\<exists>n. v = PInt n"
proof (cases "urlparse L url")
  case (Inl e)
  with assms show ?thesis
    by (auto simp: extract_features_def default_features_def all_default_lookup split: if_splits)
next
  case (Inr parsed)
  with assms show ?thesis
    by (auto simp: extract_features_words)
qed

lemma analyze_override:
  assumes "truthy (dict_get (extract_features L d (normalize_url url)) ''IsOfficialDomain'' (PInt 0))"
  shows "analyze L d score url =
           (Report \<lparr> result = Legitimate, confidence = ''100%'', threats = [],
                     features = extract_features L d (normalize_url url) \<rparr>, [])"
  using assms by (simp add: analyze_def analyze_try_def Let_def)

lemma analyze_statistical:
  assumes "\<not> truthy (dict_get (extract_features L d (normalize_url url)) ''IsOfficialDomain'' (PInt 0))"
  shows "analyze L d score url =
           (let fs = extract_features L d (normalize_url url);
                features_df = map (\<lambda>n. (n, dict_get fs n (PInt 0))) (feature_names d);
                proba = score features_df
            in case fs ''NoHttps'' of
                 None \<Rightarrow> (Error (str_exn (KeyError ''NoHttps'')), [features_df])
               | Some no_https \<Rightarrow>
                   (Report \<lparr> result = (if proba > 7 / 10 then Phishing else Legitimate),
                             confidence = str_int (confidence_percent proba) @ ''%'',
                             threats = threat_list L fs no_https,
                             features = fs \<rparr>, [features_df]))"
  using assms select_columns_total[OF dom_extract_features]
  by (simp add: analyze_def analyze_try_def Let_def split: option.splits)

lemma predict_override:
  assumes "truthy (dict_get (extract_all_features L x url) ''IsOfficialDomain'' (PInt 0))"
  shows "predict_phishing L x score url =
           (Report \<lparr> result = Legitimate, confidence = ''100%'', threats = [],
                     features = extract_all_features L x url \<rparr>, [])"
  using assms by (simp add: predict_phishing_def predict_try_def Let_def)

lemma predict_statistical:
  assumes "\<not> truthy (dict_get (extract_all_features L x url) ''IsOfficialDomain'' (PInt 0))"
  shows "predict_phishing L x score url =
           (let fs = extract_all_features L x url;
                features_df = map (\<lambda>n. (n, dict_get fs n (PInt 0))) (expected_features x);
                probability = score features_df
            in (Report \<lparr> result = (if probability > 7 / 10 then Phishing else Legitimate),
                          confidence = str_int (confidence_percent probability) @ ''%'',
                          threats = threat_list L fs (dict_get fs ''NoHttps'' (PInt 0)),
                          features = fs \<rparr>, [features_df]))"
  using assms select_columns_total[OF dom_extract_all_features]
  by (simp add: predict_phishing_def predict_try_def Let_def)


lemma str_nat_short: "n < 100 \<Longrightarrow> length (str_nat n) \<le> 2"
  by (subst str_nat.simps, subst str_nat.simps) auto

lemma str_int_not_100:
  assumes "0 \<le> i" "i \<le> 99"
  shows "str_int i @ ''%'' \<noteq> ''100%''"
proof
  assume eq: "str_int i @ ''%'' = ''100%''"
  have "length (str_int i @ ''%'') = length ''100%''"
    by (simp only: eq)
  then have "length (str_int i) = 3" by simp
  moreover have "length (str_int i) \<le> 2"
    using assms str_nat_short[of "nat i"] by (simp add: str_int_def)
  ultimately show False by simp
qed

lemma round_half_even_ge:
  assumes "of_int a \<le> y"
  shows "a \<le> round_half_even y"
proof -
  have "a \<le> \<lfloor>y\<rfloor>" using assms by (simp add: le_floor_iff)
  then show ?thesis by (auto simp: round_half_even_def Let_def)
qed

lemma round_half_even_le:
  assumes "y \<le> of_int b"
  shows "round_half_even y \<le> b"
proof -
  have fl: "\<lfloor>y\<rfloor> \<le> b" using assms by (simp add: floor_le_iff) 
  have "\<lfloor>y\<rfloor> + 1 \<le> b" if "y - of_int \<lfloor>y\<rfloor> \<ge> 1 / 2"
  proof -
    from that have "of_int \<lfloor>y\<rfloor> < y" by linarith
    with assms have "of_int \<lfloor>y\<rfloor> < (of_int b :: real)" by linarith
    then show ?thesis by simp
  qed
  with fl show ?thesis
    by (auto simp: round_half_even_def Let_def not_less)
qed

lemma round_half_even_of_int: "round_half_even (of_int n) = n"
  by (simp add: round_half_even_def)

lemma double_exponent_nat:
  assumes "2 ^ k \<le> x" "x < 2 ^ Suc k"
  shows "double_exponent x = int k - 52"
proof -
  have pos: "0 < x" using assms(1) by (smt (verit) zero_less_power)
  have up: "(2::real) powr (real k + 1) = 2 ^ Suc k"
    by (simp add: powr_add powr_realpow)
  have "\<lfloor>log 2 x\<rfloor> = int k"
    using assms pos by (simp add: floor_log_eq_powr_iff powr_realpow up)
  then show ?thesis using pos by (simp add: double_exponent_def)
qed

lemma double_exponent_upper:
  assumes "0 < x" "x \<le> 100"
  shows "double_exponent x < 0"
proof -
  have "log 2 x \<le> log 2 128" using assms by simp
  also have "log 2 128 = 7"
    using log_pow_cancel[of 2 7] by simp
  finally have "\<lfloor>log 2 x\<rfloor> \<le> 7" by (simp add: floor_le_iff)
  then show ?thesis using assms by (simp add: double_exponent_def)
qed

lemma round_double_between:
  assumes "0 \<le> x" "x \<le> 100"
  shows "of_int \<lfloor>x\<rfloor> \<le> round_double x \<and> round_double x \<le> of_int \<lfloor>x\<rfloor> + 1"
proof (cases "x = 0")
  case True
  then show ?thesis by (simp add: round_double_def)
next
  case False
  with assms have pos: "0 < x" by simp
  define e where "e = double_exponent x"
  define s :: real where "s = 2 ^ nat (- e)"
  have eneg: "e < 0" unfolding e_def using double_exponent_upper[OF pos assms(2)] .
  have spos: "0 < s" by (simp add: s_def)
  have pw: "(2::real) powi e = 1 / s"
    using eneg by (simp add: s_def power_int_def divide_simps)
  have y: "x / 2 powi e = x * s" by (simp add: pw)
  have rd: "round_double x = of_int (round_half_even (x * s)) / s"
    using False by (simp add: round_double_def Let_def e_def[symmetric] pw y)
  have sint: "s = of_int (2 ^ nat (- e))" by (simp add: s_def)
  have lo: "of_int (\<lfloor>x\<rfloor> * 2 ^ nat (- e)) \<le> x * s"
  proof -
    have "of_int \<lfloor>x\<rfloor> * s \<le> x * s" using spos by (simp add: mult_right_mono)
    then show ?thesis by (simp add: s_def)
  qed
  have hi: "x * s \<le> of_int ((\<lfloor>x\<rfloor> + 1) * 2 ^ nat (- e))"
  proof -
    have "x \<le> of_int (\<lfloor>x\<rfloor> + 1)" by linarith
    then have "x * s \<le> of_int (\<lfloor>x\<rfloor> + 1) * s" using spos by (simp add: mult_right_mono)
    then show ?thesis by (simp add: s_def)
  qed
  from round_half_even_ge[OF lo] have "of_int \<lfloor>x\<rfloor> * s \<le> of_int (round_half_even (x * s))"
    by (metis of_int_le_iff of_int_mult sint)
  then have a: "of_int \<lfloor>x\<rfloor> \<le> round_double x"
    using spos by (simp add: rd pos_le_divide_eq)
  from round_half_even_le[OF hi] have "of_int (round_half_even (x * s)) \<le> (of_int \<lfloor>x\<rfloor> + 1) * s"
    by (metis of_int_le_iff of_int_mult sint of_int_add of_int_1)
  then have b: "round_double x \<le> of_int \<lfloor>x\<rfloor> + 1"
    using spos by (simp add: rd pos_divide_le_eq)
  from a b show ?thesis by simp
qed

lemma round_double_int:
  assumes "0 \<le> n" "n \<le> 100"
  shows "round_double (of_int n) = of_int n"
proof (cases "n = 0")
  case True
  then show ?thesis by (simp add: round_double_def)
next
  case False
  with assms have pos: "0 < (of_int n :: real)" by simp
  define e where "e = double_exponent (of_int n)"
  have eneg: "e < 0" unfolding e_def using double_exponent_upper[OF pos] assms by simp
  have pw: "(2::real) powi e = 1 / 2 ^ nat (- e)"
    using eneg by (simp add: power_int_def divide_simps)
  have "of_int n / (2::real) powi e = of_int (n * 2 ^ nat (- e))"
    by (simp add: pw)
  then have "round_half_even (of_int n / 2 powi e) = n * 2 ^ nat (- e)"
    by (simp only: round_half_even_of_int)
  then show ?thesis
    using False by (simp add: round_double_def Let_def e_def[symmetric] pw)
qed

lemma near_015:
  "double_mul (5404319552844595 / 36028797018963968) 100 = 15"
  "\<lfloor>(5404319552844595 / 36028797018963968 :: real) * 100\<rfloor> = 14"
proof -
  let ?x = "(5404319552844595 / 36028797018963968 :: real) * 100"
  have e: "double_exponent ?x = - 49"
    using double_exponent_nat[of 3 ?x] by simp
  have pw: "(2::real) powi (- 49) = 1 / 562949953421312"
    by (simp add: power_int_minus inverse_eq_divide)
  have "?x / 2 powi (- 49) = 8444249301319679 + 11 / 16"
    unfolding pw by simp
  then have "round_half_even (?x / 2 powi (- 49)) = 8444249301319680"
    by (simp add: round_half_even_def Let_def)
  then have "round_double ?x = of_int 8444249301319680 * (1 / 562949953421312)"
    unfolding round_double_def Let_def e pw by simp
  then show "double_mul (5404319552844595 / 36028797018963968) 100 = 15"
    by (simp add: double_mul_def)
  show "\<lfloor>?x\<rfloor> = 14" by simp
qed

lemma double_mul_percent:
  assumes "0 \<le> p" "p \<le> 1"
  shows "of_int \<lfloor>p * 100\<rfloor> \<le> double_mul p 100 \<and> double_mul p 100 \<le> of_int \<lfloor>p * 100\<rfloor> + 1"
  unfolding double_mul_def
  using assms by (intro round_double_between) simp_all

lemma floor_double_mul_percent:
  assumes "0 \<le> p" "p \<le> 1"
  shows "0 \<le> double_mul p 100"
    and "\<lfloor>p * 100\<rfloor> \<le> \<lfloor>double_mul p 100\<rfloor>"
    and "\<lfloor>double_mul p 100\<rfloor> \<le> \<lfloor>p * 100\<rfloor> + 1"
proof -
  from double_mul_percent[OF assms]
  have lo: "of_int \<lfloor>p * 100\<rfloor> \<le> double_mul p 100"
    and hi: "double_mul p 100 \<le> of_int (\<lfloor>p * 100\<rfloor> + 1)" by simp_all
  have "0 \<le> \<lfloor>p * 100\<rfloor>" using assms(1) by simp
  then have "(0::real) \<le> of_int \<lfloor>p * 100\<rfloor>" by simp
  with lo show "0 \<le> double_mul p 100" by linarith
  from lo show "\<lfloor>p * 100\<rfloor> \<le> \<lfloor>double_mul p 100\<rfloor>" by (simp add: le_floor_iff)
  have "\<lfloor>double_mul p 100\<rfloor> \<le> \<lfloor>(of_int (\<lfloor>p * 100\<rfloor> + 1) :: real)\<rfloor>"
    by (rule floor_mono[OF hi])
  then show "\<lfloor>double_mul p 100\<rfloor> \<le> \<lfloor>p * 100\<rfloor> + 1"
    by (simp only: floor_of_int)
qed

lemma confidence_percent_floor:
  assumes "0 \<le> p" "p \<le> 1"
  shows "confidence_percent p = min 99 \<lfloor>double_mul p 100\<rfloor>"
  using floor_double_mul_percent(1)[OF assms] by (simp add: confidence_percent_def py_int_def)

lemma confidence_percent_range:
  assumes "0 \<le> p" "p \<le> 1"
  shows "0 \<le> confidence_percent p \<and> confidence_percent p \<le> 99"
  using floor_double_mul_percent(1)[OF assms] by (simp add: confidence_percent_def py_int_def)

lemma confidence_percent_samples:
  "confidence_percent (1 / 2) = 50" "confidence_percent (7 / 10) = 70" "confidence_percent 1 = 99"
  "confidence_percent (5404319552844595 / 36028797018963968) = 15"
proof -
  have "double_mul (1 / 2) 100 = 50" "double_mul (7 / 10) 100 = 70" "double_mul 1 100 = 100"
    using round_double_int[of 50] round_double_int[of 70] round_double_int[of 100]
    by (simp_all add: double_mul_def)
  then show "confidence_percent (1 / 2) = 50" "confidence_percent (7 / 10) = 70" "confidence_percent 1 = 99"
    by (simp_all add: confidence_percent_def py_int_def)
  show "confidence_percent (5404319552844595 / 36028797018963968) = 15"
    by (simp add: confidence_percent_def py_int_def near_015)
qed

lemma py_lower_char_slash: "py_lower_char c = CHR ''/'' \<longleftrightarrow> c = CHR ''/''"
proof -
  have "(of_char (py_lower_char c) :: nat) = of_char CHR ''/'' \<longleftrightarrow> (of_char c :: nat) = of_char CHR ''/''"
    by (auto simp: py_lower_char_def Let_def)
  then show ?thesis by (simp only: of_char_eq_iff)
qed

lemma slash_py_lower_char: "CHR ''/'' = py_lower_char c \<longleftrightarrow> c = CHR ''/''"
  using py_lower_char_slash[of c] by auto

lemma length_py_lower: "length (py_lower s) = length s"
  by (simp add: py_lower_def)

lemma py_lower_Nil: "py_lower s = [] \<longleftrightarrow> s = []"
  by (simp add: py_lower_def)

lemma count_slash_py_lower: "count_char CHR ''/'' (py_lower s) = count_char CHR ''/'' s"
  by (induction s) (auto simp: count_char_def py_lower_def py_lower_char_slash)

lemma double_slash_py_lower: "py_in ''//'' (py_lower s) = py_in ''//'' s"
proof (induction s)
  case Nil
  show ?case by (simp add: py_lower_def)
next
  case (Cons c cs)
  have "prefix ''//'' (py_lower (c # cs)) = prefix ''//'' (c # cs)"
    by (cases cs) (auto simp: py_lower_def py_lower_char_slash slash_py_lower_char)
  with Cons show ?case
    by (simp add: py_in_def sublist_Cons_right py_lower_def)
qed

lemma url_features_py_lower:
  "url_features L url parsed ext h (py_lower p) = url_features L url parsed ext h p"
  by (simp add: url_features_def length_py_lower py_lower_Nil count_slash_py_lower double_slash_py_lower)

lemma std_libs_simps:
  "urlparse std_libs = std_urlparse"
  "tldextract std_libs = std_tldextract sample_psl"
  "parse_qs std_libs = std_parse_qs"
  by (simp_all add: std_libs_def)

lemma sample_detector_names: "feature_names sample_detector = sample_schema"
  by (simp add: sample_detector_def PhishingDetector_def)

lemma sample_extractor_names: "expected_features sample_extractor = sample_schema"
  by (simp add: sample_extractor_def URLFeatureExtractor_def)

lemma analyze_calls:
  "snd (analyze L d score url) =
     (if truthy (dict_get (extract_features L d (normalize_url url)) ''IsOfficialDomain'' (PInt 0)) then []
      else [map (\<lambda>n. (n, dict_get (extract_features L d (normalize_url url)) n (PInt 0))) (feature_names d)])"
  by (simp add: analyze_override analyze_statistical Let_def split: option.splits)

lemma predict_calls:
  "snd (predict_phishing L x score url) =
     (if truthy (dict_get (extract_all_features L x url) ''IsOfficialDomain'' (PInt 0)) then []
      else [map (\<lambda>n. (n, dict_get (extract_all_features L x url) n (PInt 0))) (expected_features x)])"
  by (simp add: predict_override predict_statistical Let_def)

lemma selected_entries:
  assumes "set names \<subseteq> dom fs"
      and "\<And>n. n \<notin> set computed_names \<Longrightarrow> n \<in> set names \<Longrightarrow> fs n = Some (PInt 0)"
      and "v = map (\<lambda>n. (n, dict_get fs n (PInt 0))) names"
  shows "map fst v = names \<and>
         (\<forall>(n, val) \<in> set v. fs n = Some val \<and> (n \<notin> set computed_names \<longrightarrow> val = PInt 0))"
proof
  show "map fst v = names"
    unfolding assms(3) by (simp add: comp_def)
next
  show "\<forall>(n, val) \<in> set v. fs n = Some val \<and> (n \<notin> set computed_names \<longrightarrow> val = PInt 0)"
  proof (clarify)
    fix n val
    assume "(n, val) \<in> set v"
    then have n: "n \<in> set names" and val: "val = dict_get fs n (PInt 0)"
      unfolding assms(3) by auto
    from n assms(1) obtain w where w: "fs n = Some w" by auto
    then have "val = w" using val by (simp add: dict_get_def)
    with w assms(2)[OF _ n] show "fs n = Some val \<and> (n \<notin> set computed_names \<longrightarrow> val = PInt 0)"
      by auto
  qed
qed

lemma count_words_in_filter:
  "count_words_in ws t = int (length (filter (\<lambda>w. sublist w t) ws))"
  by (induction ws) (auto simp: count_words_in_def int_of_bool_def py_in_def)

lemma brand_loop_iff:
  "brand_loop h m bs = (if \<exists>b \<in> set bs. sublist b h \<and> \<not> sublist b m then 1 else 0)"
  by (induction bs) (auto simp: py_in_def)

lemma std_urlparse_http:
  assumes "std_urlparse (''http://'' @ s) = Inr parsed"
  shows "scheme parsed = ''http''"
proof -
  have "split_scheme (''http://'' @ s) = (''http'', ''//'' @ s)"
    by (simp add: split_scheme_def is_alpha_def scheme_char_def is_digit_def py_lower_def py_lower_char_def)
  with assms show ?thesis
    by (auto simp: std_urlparse_def Let_def split: if_splits)
qed

lemma std_libs_keeps_http: "keeps_http_scheme std_libs"
  unfolding keeps_http_scheme_def std_libs_simps
  by (blast intro: std_urlparse_http)

section \<open>Concrete runs\<close>

lemma run_mail_google:
  "normalize_url ''mail.google.com'' = ''http://mail.google.com''"
  "std_urlparse ''http://mail.google.com'' =
     Inr \<lparr>scheme = ''http'', netloc = ''mail.google.com'', path = [], query = []\<rparr>"
  "py_lower ''mail.google.com'' = ''mail.google.com''"
  "base_domain (std_tldextract sample_psl ''mail.google.com'') = ''google.com''"
  "''google.com'' \<in> set (official_domains sample_detector)"
  by code_simp+

lemma run_verify:
  "normalize_url ''secure-login-verify.example.com'' = ''http://secure-login-verify.example.com''"
  "normalize_url ''http://secure-login-verify.example.com'' = ''http://secure-login-verify.example.com''"
  "std_urlparse ''http://secure-login-verify.example.com'' =
     Inr \<lparr>scheme = ''http'', netloc = ''secure-login-verify.example.com'', path = [], query = []\<rparr>"
  "std_tldextract sample_psl ''http://secure-login-verify.example.com'' =
     \<lparr>ext_subdomain = ''secure-login-verify'', ext_domain = ''example'', ext_suffix = ''com''\<rparr>"
  "py_lower ''secure-login-verify.example.com'' = ''secure-login-verify.example.com''"
  "py_lower ''http://secure-login-verify.example.com'' = ''http://secure-login-verify.example.com''"
  "is_official std_libs sample_detector ''secure-login-verify.example.com'' = False"
  "is_official_domain sample_extractor ''secure-login-verify.example.com'' = False"
  "check_brand_usage std_libs sample_detector ''secure-login-verify.example.com'' = 0"
  "check_brand_spoofing std_libs sample_extractor ''secure-login-verify.example.com'' = 0"
  "count_words_in (sensitive_words sample_detector) ''http://secure-login-verify.example.com'' = 3"
  "count_words_in (fx_sensitive_words sample_extractor) ''http://secure-login-verify.example.com'' = 3"
  "std_parse_qs [] = []"
  by code_simp+

lemma str_int_3: "str_int 3 = ''3''"
  by code_simp

lemma brand_in_sample_schema: "''BrandSpoofing'' \<in> set sample_schema"
  by (simp add: sample_schema_def)

lemma features_verify:
  "map (\<lambda>n. (n, dict_get (extract_features std_libs sample_detector
          ''http://secure-login-verify.example.com'') n (PInt 0))) sample_schema = verify_vector"
  apply (subst sample_schema_def)
  apply (simp add: extract_features_def std_libs_simps run_verify dict_update_lookup
      feature_updates_def url_features_def Let_def default_features_def all_default_lookup
      sample_detector_names brand_in_sample_schema dict_get_def int_of_bool_def count_char_def
      verify_vector_def)
  done

lemma all_features_verify:
  "map (\<lambda>n. (n, dict_get (extract_all_features std_libs sample_extractor
          ''http://secure-login-verify.example.com'') n (PInt 0))) sample_schema = verify_vector"
  apply (subst sample_schema_def)
  apply (simp add: extract_all_features_def std_libs_simps run_verify dict_update_lookup
      all_feature_updates_def url_features_def Let_def all_default_lookup
      sample_extractor_names brand_in_sample_schema dict_get_def int_of_bool_def count_char_def
      verify_vector_def)
  done

lemma lookups_verify:
  "extract_features std_libs sample_detector ''http://secure-login-verify.example.com'' ''IsOfficialDomain'' = Some (PInt 0)"
  "extract_features std_libs sample_detector ''http://secure-login-verify.example.com'' ''NoHttps'' = Some (PInt 1)"
  "extract_features std_libs sample_detector ''http://secure-login-verify.example.com'' ''NumSensitiveWords'' = Some (PInt 3)"
  "extract_features std_libs sample_detector ''http://secure-login-verify.example.com'' ''BrandSpoofing'' = Some (PInt 0)"
  by (simp_all add: extract_features_official extract_features_no_https extract_features_words
        extract_features_brand std_libs_simps run_verify int_of_bool_def)

lemma all_lookups_verify:
  "extract_all_features std_libs sample_extractor ''http://secure-login-verify.example.com'' ''IsOfficialDomain'' = Some (PInt 0)"
  "extract_all_features std_libs sample_extractor ''http://secure-login-verify.example.com'' ''NoHttps'' = Some (PInt 1)"
  "extract_all_features std_libs sample_extractor ''http://secure-login-verify.example.com'' ''NumSensitiveWords'' = Some (PInt 3)"
  "extract_all_features std_libs sample_extractor ''http://secure-login-verify.example.com'' ''BrandSpoofing'' = Some (PInt 0)"
  by (simp_all add: extract_all_features_def dict_update_lookup all_feature_updates_def
        url_features_def Let_def std_libs_simps run_verify int_of_bool_def)

lemma gets_verify:
  "dict_get (extract_features std_libs sample_detector ''http://secure-login-verify.example.com'') ''IsOfficialDomain'' (PInt 0) = PInt 0"
  "dict_get (extract_features std_libs sample_detector ''http://secure-login-verify.example.com'') ''BrandSpoofing'' (PInt 0) = PInt 0"
  "dict_get (extract_all_features std_libs sample_extractor ''http://secure-login-verify.example.com'') ''IsOfficialDomain'' (PInt 0) = PInt 0"
  "dict_get (extract_all_features std_libs sample_extractor ''http://secure-login-verify.example.com'') ''BrandSpoofing'' (PInt 0) = PInt 0"
  "dict_get (extract_all_features std_libs sample_extractor ''http://secure-login-verify.example.com'') ''NoHttps'' (PInt 0) = PInt 1"
  by (simp_all add: dict_get_def lookups_verify all_lookups_verify)

lemma analyze_verify:
  assumes "normalize_url url = ''http://secure-login-verify.example.com''"
  shows "analyze std_libs sample_detector score url =
     (Report \<lparr> result = (if score verify_vector > 7 / 10 then Phishing else Legitimate),
               confidence = str_int (confidence_percent (score verify_vector)) @ ''%'',
               threats = [''No HTTPS'', ''3 sensitive words''],
               features = extract_features std_libs sample_detector ''http://secure-login-verify.example.com'' \<rparr>,
      [verify_vector])"
  by (subst analyze_statistical)
     (simp_all add: assms lookups_verify gets_verify Let_def sample_detector_names
        features_verify threat_list_def str_int_3)

lemma predict_verify:
  "predict_phishing std_libs sample_extractor score ''http://secure-login-verify.example.com'' =
     (Report \<lparr> result = (if score verify_vector > 7 / 10 then Phishing else Legitimate),
               confidence = str_int (confidence_percent (score verify_vector)) @ ''%'',
               threats = [''No HTTPS'', ''3 sensitive words''],
               features = extract_all_features std_libs sample_extractor ''http://secure-login-verify.example.com'' \<rparr>,
      [verify_vector])"
  by (subst predict_statistical)
     (simp_all add: all_lookups_verify gets_verify Let_def sample_extractor_names
        all_features_verify threat_list_def str_int_3)

lemma confidence_samples:
  "str_int (confidence_percent (1 / 2)) = ''50''"
  "str_int (confidence_percent (7 / 10)) = ''70''"
  "str_int (confidence_percent 1) = ''99''"
  "str_int (confidence_percent (5404319552844595 / 36028797018963968)) = ''15''"
  "str_int 14 = ''14''"
proof -
  have "str_int 50 = ''50''" "str_int 70 = ''70''" "str_int 99 = ''99''" "str_int 15 = ''15''"
    by code_simp+
  then show "str_int (confidence_percent (1 / 2)) = ''50''"
    "str_int (confidence_percent (7 / 10)) = ''70''"
    "str_int (confidence_percent 1) = ''99''"
    "str_int (confidence_percent (5404319552844595 / 36028797018963968)) = ''15''"
    by (simp_all add: confidence_percent_samples)
  show "str_int 14 = ''14''" by code_simp
qed

lemma run_paypal_hosts:
  "is_official std_libs sample_detector ''paypal.evil-host.com'' = False"
  "is_official std_libs sample_detector ''paypal.com'' = True"
  "is_official_domain sample_extractor ''paypal.evil-host.com'' = False"
  "is_official_domain sample_extractor ''paypal.com'' = True"
  "py_lower ''paypal.evil-host.com'' = ''paypal.evil-host.com''"
  "base_domain (std_tldextract sample_psl ''paypal.evil-host.com'') = ''evil-host.com''"
  "''paypal'' \<in> set (known_brands sample_detector)"
  "''paypal'' \<in> set brand_names"
  "sublist ''paypal'' ''paypal.evil-host.com''"
  "sublist ''paypal'' ''evil-host.com'' = False"
  by code_simp+

lemma run_paypal:
  "normalize_url ''http://paypal.com'' = ''http://paypal.com''"
  "std_urlparse ''http://paypal.com'' =
     Inr \<lparr>scheme = ''http'', netloc = ''paypal.com'', path = [], query = []\<rparr>"
  "py_lower ''paypal.com'' = ''paypal.com''"
  by code_simp+

lemma run_empty_host:
  "normalize_url ''http://'' = ''http://''"
  "std_urlparse ''http://'' = Inr \<lparr>scheme = ''http'', netloc = [], path = [], query = []\<rparr>"
  "py_lower [] = []"
  "is_official std_libs sample_detector [] = False"
  by code_simp+

lemma run_bracket:
  "normalize_url ''http://['' = ''http://[''"
  "std_urlparse ''http://['' = Inl (ValueError ''Invalid IPv6 URL'')"
  by code_simp+

lemma run_ebay:
  "std_urlparse ''http://ebay.com'' =
     Inr \<lparr>scheme = ''http'', netloc = ''ebay.com'', path = [], query = []\<rparr>"
  "py_lower ''ebay.com'' = ''ebay.com''"
  "is_official std_libs sample_detector ''ebay.com'' = True"
  "is_official_domain sample_extractor ''ebay.com'' = False"
  by code_simp+

lemma sample_schema_members:
  "''UrlLength'' \<in> set sample_schema" "''NoHttps'' \<in> set sample_schema"
  by (simp_all add: sample_schema_def)

lemma extract_all_features_official:
  assumes "urlparse L url = Inr parsed"
  shows "extract_all_features L x url ''IsOfficialDomain'' =
           Some (PInt (int_of_bool (is_official_domain x (py_lower (netloc parsed)))))"
  using assms
  by (simp add: extract_all_features_def dict_update_lookup all_feature_updates_def url_features_def Let_def)

lemma extract_all_features_words:
  assumes "urlparse L url = Inr parsed"
  shows "extract_all_features L x url ''NumSensitiveWords'' =
           Some (PInt (if is_official_domain x (py_lower (netloc parsed)) then 0
                       else count_words_in (fx_sensitive_words x) (py_lower url)))"
  using assms
  by (simp add: extract_all_features_def dict_update_lookup all_feature_updates_def url_features_def Let_def)

lemma extract_all_features_url_length:
  assumes "urlparse L url = Inr parsed"
  shows "extract_all_features L x url ''UrlLength'' = Some (PInt (int (length url)))"
  using assms
  by (simp add: extract_all_features_def dict_update_lookup all_feature_updates_def url_features_def Let_def)

lemma check_brand_usage_official:
  "is_official L d h \<Longrightarrow> check_brand_usage L d h = 0"
  by (simp add: check_brand_usage_def)

lemma analyze_paypal:
  "analyze std_libs sample_detector score ''http://paypal.com'' =
     (Report \<lparr> result = Legitimate, confidence = ''100%'', threats = [],
               features = extract_features std_libs sample_detector ''http://paypal.com'' \<rparr>, [])"
  "extract_features std_libs sample_detector ''http://paypal.com'' ''IsOfficialDomain'' = Some (PInt 1)"
  "extract_features std_libs sample_detector ''http://paypal.com'' ''UrlLength'' = Some (PInt 17)"
proof -
  have parse: "urlparse std_libs ''http://paypal.com'' =
      Inr \<lparr>scheme = ''http'', netloc = ''paypal.com'', path = [], query = []\<rparr>"
    by (simp add: run_paypal std_libs_simps)
  show off: "extract_features std_libs sample_detector ''http://paypal.com'' ''IsOfficialDomain'' = Some (PInt 1)"
    by (simp add: extract_features_official[OF parse] run_paypal run_paypal_hosts int_of_bool_def)
  show "extract_features std_libs sample_detector ''http://paypal.com'' ''UrlLength'' = Some (PInt 17)"
    by (simp add: extract_features_url_length[OF parse])
  show "analyze std_libs sample_detector score ''http://paypal.com'' =
     (Report \<lparr> result = Legitimate, confidence = ''100%'', threats = [],
               features = extract_features std_libs sample_detector ''http://paypal.com'' \<rparr>, [])"
    using analyze_override[of std_libs sample_detector "''http://paypal.com''" score]
    by (simp add: run_paypal off dict_get_def)
qed

lemma analyze_empty_host:
  "extract_features std_libs sample_detector ''http://'' ''UrlLength'' = Some (PInt 7)"
  "extract_features std_libs sample_detector ''http://'' ''NoHttps'' = Some (PInt 1)"
  "extract_features std_libs sample_detector ''http://'' ''IsOfficialDomain'' = Some (PInt 0)"
  "\<exists>r calls. analyze std_libs sample_detector score ''http://'' = (Report r, calls) \<and>
      features r = extract_features std_libs sample_detector ''http://''"
proof -
  have parse: "urlparse std_libs ''http://'' = Inr \<lparr>scheme = ''http'', netloc = [], path = [], query = []\<rparr>"
    by (simp add: run_empty_host std_libs_simps)
  show len: "extract_features std_libs sample_detector ''http://'' ''UrlLength'' = Some (PInt 7)"
    by (simp add: extract_features_url_length[OF parse])
  show nh: "extract_features std_libs sample_detector ''http://'' ''NoHttps'' = Some (PInt 1)"
    by (simp add: extract_features_no_https[OF parse] int_of_bool_def)
  show off: "extract_features std_libs sample_detector ''http://'' ''IsOfficialDomain'' = Some (PInt 0)"
    by (simp add: extract_features_official[OF parse] run_empty_host int_of_bool_def)
  have stat: "\<not> truthy (dict_get (extract_features std_libs sample_detector (normalize_url ''http://'')) ''IsOfficialDomain'' (PInt 0))"
    by (simp add: run_empty_host off dict_get_def)
  show "\<exists>r calls. analyze std_libs sample_detector score ''http://'' = (Report r, calls) \<and>
      features r = extract_features std_libs sample_detector ''http://''"
    unfolding analyze_statistical[OF stat] Let_def
    by (simp add: run_empty_host nh)
qed

lemma threat_list_default:
  "threat_list L (all_default names) (PInt 0) = []"
  by (simp add: threat_list_def all_default_lookup dict_get_def)

lemma official_lists_subset:
  "set (fx_official_domains (URLFeatureExtractor names)) \<subseteq> set (official_domains (PhishingDetector names))"
  by (simp add: URLFeatureExtractor_def PhishingDetector_def)

lemma is_official_domain_imp_is_official:
  assumes "is_official_domain (URLFeatureExtractor names) h"
  shows "is_official L (PhishingDetector names) h"
  using assms official_lists_subset[of names]
  by (auto simp: is_official_domain_def is_official_def Let_def)

lemma dict_update_append_other:
  assumes "n \<notin> fst ` set kvs2"
  shows "dict_update m (kvs1 @ kvs2) n = dict_update m kvs1 n"
proof -
  have "map_of (rev kvs2) n = None"
    using assms by (simp add: map_of_eq_None_iff)
  then show ?thesis
    by (simp add: dict_update_lookup map_of_append map_add_def)
qed

lemma same_schema:
  "feature_names (PhishingDetector names) = names"
  "expected_features (URLFeatureExtractor names) = names"
  "sensitive_words (PhishingDetector names) = fx_sensitive_words (URLFeatureExtractor names)"
  by (simp_all add: PhishingDetector_def URLFeatureExtractor_def)

lemma override_iff_official:
  "truthy (dict_get (extract_features L d url) ''IsOfficialDomain'' (PInt 0)) \<longleftrightarrow>
     (\<exists>parsed. urlparse L url = Inr parsed \<and> is_official L d (py_lower (netloc parsed)))"
proof (cases "urlparse L url")
  case (Inl e)
  then show ?thesis
    by (simp add: extract_features_def default_features_def dict_get_def all_default_lookup)
next
  case (Inr parsed)
  then show ?thesis
    by (simp add: extract_features_official dict_get_def int_of_bool_def)
qed

lemma predict_override_iff_official:
  "truthy (dict_get (extract_all_features L x url) ''IsOfficialDomain'' (PInt 0)) \<longleftrightarrow>
     (\<exists>parsed. urlparse L url = Inr parsed \<and> is_official_domain x (py_lower (netloc parsed)))"
proof (cases "urlparse L url")
  case (Inl e)
  then show ?thesis
    by (simp add: extract_all_features_def dict_get_def all_default_lookup)
next
  case (Inr parsed)
  then show ?thesis
    by (simp add: extract_all_features_official dict_get_def int_of_bool_def)
qed

lemma analyze_rejected:
  assumes "urlparse L (normalize_url url) = Inl e"
      and "''NoHttps'' \<in> set (feature_names d)"
  shows "fst (analyze L d score url) =
           Report \<lparr> result = (if score (map (\<lambda>n. (n, PInt 0)) (feature_names d)) > 7 / 10
                               then Phishing else Legitimate),
                    confidence = str_int (confidence_percent
                                   (score (map (\<lambda>n. (n, PInt 0)) (feature_names d)))) @ ''%'',
                    threats = [],
                    features = all_default (feature_names d) \<rparr>"
    and "snd (analyze L d score url) = [map (\<lambda>n. (n, PInt 0)) (feature_names d)]"
proof -
  have fs: "extract_features L d (normalize_url url) = all_default (feature_names d)"
    using assms(1) by (simp add: extract_features_def default_features_def)
  have stat: "\<not> truthy (dict_get (extract_features L d (normalize_url url)) ''IsOfficialDomain'' (PInt 0))"
    by (simp add: fs dict_get_def all_default_lookup)
  have vec: "map (\<lambda>n. (n, dict_get (all_default (feature_names d)) n (PInt 0))) (feature_names d)
             = map (\<lambda>n. (n, PInt 0)) (feature_names d)"
    by (simp add: dict_get_def all_default_lookup)
  show "fst (analyze L d score url) =
           Report \<lparr> result = (if score (map (\<lambda>n. (n, PInt 0)) (feature_names d)) > 7 / 10
                               then Phishing else Legitimate),
                    confidence = str_int (confidence_percent
                                   (score (map (\<lambda>n. (n, PInt 0)) (feature_names d)))) @ ''%'',
                    threats = [],
                    features = all_default (feature_names d) \<rparr>"
    unfolding analyze_statistical[OF stat] Let_def fs vec
    using assms(2) by (simp add: all_default_lookup threat_list_default)
  show "snd (analyze L d score url) = [map (\<lambda>n. (n, PInt 0)) (feature_names d)]"
    unfolding analyze_statistical[OF stat] Let_def fs vec
    using assms(2) by (simp add: all_default_lookup)
qed

lemma run_bracket_input:
  "prefix ''http://'' ''['' = False"
  "prefix ''https://'' ''['' = False"
  "normalize_url ''['' = ''http://[''"
  "is_official std_libs sample_detector ''['' = False"
  by code_simp+

lemma predict_paypal:
  "predict_phishing std_libs sample_extractor score ''http://paypal.com'' =
     (Report \<lparr> result = Legitimate, confidence = ''100%'', threats = [],
               features = extract_all_features std_libs sample_extractor ''http://paypal.com'' \<rparr>, [])"
proof -
  have parse: "urlparse std_libs ''http://paypal.com'' =
      Inr \<lparr>scheme = ''http'', netloc = ''paypal.com'', path = [], query = []\<rparr>"
    by (simp add: run_paypal std_libs_simps)
  have "truthy (dict_get (extract_all_features std_libs sample_extractor ''http://paypal.com'') ''IsOfficialDomain'' (PInt 0))"
    unfolding predict_override_iff_official
    by (simp add: parse run_paypal run_paypal_hosts)
  then show ?thesis by (rule predict_override)
qed

section \<open>The official-domain override\<close>

text \<open>
  Claim C1. Let the normalized URL parse, and let its hostname (the lower-cased network
  location) be listed in \<open>official_domains\<close>, either itself or through the registrable
  domain \<^verbatim>\<open>domain.suffix\<close> that \<^verbatim>\<open>tldextract\<close> computes for it. Then \<^verbatim>\<open>analyze\<close> returns
  the verdict Legitimate with confidence \<^verbatim>\<open>100%\<close> and no threat indicators, and the list of
  classifier invocations is empty, whatever the classifier is.
\<close>

theorem analyze_official_override:
  assumes "urlparse L (normalize_url url) = Inr parsed"
      and "hostname = py_lower (netloc parsed)"
      and "hostname \<in> set (official_domains d) \<or>
           base_domain (tldextract L hostname) \<in> set (official_domains d)"
  shows "analyze L d score url =
           (Report \<lparr> result = Legitimate, confidence = ''100%'', threats = [],
                     features = extract_features L d (normalize_url url) \<rparr>, [])"
proof -
  have "is_official L d hostname"
    using assms(2,3) by (auto simp: is_official_def Let_def py_lower_idem)
  then have "extract_features L d (normalize_url url) ''IsOfficialDomain'' = Some (PInt 1)"
    using assms(1,2) by (simp add: extract_features_official int_of_bool_def)
  then show ?thesis
    by (intro analyze_override) (simp add: dict_get_def)
qed

text \<open>
  The run on \<^verbatim>\<open>mail.google.com\<close>: the hostname itself is not listed, its registrable domain
  \<^verbatim>\<open>google.com\<close> is.
\<close>

theorem analyze_official_override_witness:
  "analyze std_libs sample_detector score_half ''mail.google.com'' =
     (Report \<lparr> result = Legitimate, confidence = ''100%'', threats = [],
               features = extract_features std_libs sample_detector ''http://mail.google.com'' \<rparr>, [])"
  using analyze_official_override[of std_libs "''mail.google.com''"
          "\<lparr>scheme = ''http'', netloc = ''mail.google.com'', path = [], query = []\<rparr>"
          "''mail.google.com''" sample_detector score_half]
  by (simp add: run_mail_google std_libs_simps)

text \<open>
  Claim C2 says that on the override branch the returned features are the all-default
  schema vector with only \<open>IsOfficialDomain\<close> changed to 1. \<^verbatim>\<open>analyze\<close> tests
  \<open>IsOfficialDomain\<close> after \<^verbatim>\<open>extract_features\<close> has run, and returns the dictionary that
  function built. On \<^verbatim>\<open>http://paypal.com\<close> the classifier is not called and the schema
  feature \<open>UrlLength\<close> of the result is 17, where the vector of the claim holds 0.
\<close>

theorem override_features_default_counterexample:
  "snd (analyze std_libs sample_detector score_half ''http://paypal.com'') = [] \<and>
   ''UrlLength'' \<in> set (feature_names sample_detector) \<and>
   result_feature (fst (analyze std_libs sample_detector score_half ''http://paypal.com'')) ''UrlLength''
     = Some (PInt 17) \<and>
   ((all_default (feature_names sample_detector))(''IsOfficialDomain'' \<mapsto> PInt 1)) ''UrlLength''
     = Some (PInt 0)"
  by (simp add: analyze_paypal result_feature_def sample_detector_names sample_schema_members
        all_default_lookup)

text \<open>
  Claim C2, amended. On the override branch the returned features are the all-default
  schema vector updated with every computed feature: \<open>IsOfficialDomain\<close> is 1,
  \<open>BrandSpoofing\<close> and \<open>NumSensitiveWords\<close> are 0, the other computed features keep
  their computed values (\<open>UrlLength\<close> is the length of the normalized URL), and a schema
  name that the extractor does not compute holds 0.
\<close>

theorem override_features_computed:
  assumes "urlparse L (normalize_url url) = Inr parsed"
      and "is_official L d (py_lower (netloc parsed))"
  shows "\<exists>r. analyze L d score url = (Report r, []) \<and>
             features r = dict_update (all_default (feature_names d))
                            (feature_updates L d (normalize_url url) parsed) \<and>
             features r ''IsOfficialDomain'' = Some (PInt 1) \<and>
             features r ''BrandSpoofing'' = Some (PInt 0) \<and>
             features r ''NumSensitiveWords'' = Some (PInt 0) \<and>
             features r ''UrlLength'' = Some (PInt (int (length (normalize_url url)))) \<and>
             (\<forall>n \<in> set (feature_names d) - set computed_names. features r n = Some (PInt 0))"
proof -
  let ?fs = "extract_features L d (normalize_url url)"
  have off: "?fs ''IsOfficialDomain'' = Some (PInt 1)"
    using assms by (simp add: extract_features_official int_of_bool_def)
  then have run: "analyze L d score url =
      (Report \<lparr> result = Legitimate, confidence = ''100%'', threats = [], features = ?fs \<rparr>, [])"
    by (intro analyze_override) (simp add: dict_get_def)
  have upd: "?fs = dict_update (all_default (feature_names d)) (feature_updates L d (normalize_url url) parsed)"
    using assms(1) by (simp add: extract_features_def default_features_def)
  have brand: "?fs ''BrandSpoofing'' = Some (PInt 0)"
    using assms by (simp add: extract_features_brand check_brand_usage_official)
  have words: "?fs ''NumSensitiveWords'' = Some (PInt 0)"
    using assms by (simp add: extract_features_words)
  have len: "?fs ''UrlLength'' = Some (PInt (int (length (normalize_url url))))"
    using assms(1) by (simp add: extract_features_url_length)
  have rest: "\<forall>n \<in> set (feature_names d) - set computed_names. ?fs n = Some (PInt 0)"
    by (simp add: extract_features_other all_default_lookup)
  show ?thesis
    unfolding run using off upd brand words len rest by simp
qed

theorem override_features_computed_witness:
  "analyze std_libs sample_detector score_half ''http://paypal.com'' =
     (Report \<lparr> result = Legitimate, confidence = ''100%'', threats = [],
               features = extract_features std_libs sample_detector ''http://paypal.com'' \<rparr>, []) \<and>
   extract_features std_libs sample_detector ''http://paypal.com'' ''UrlLength'' = Some (PInt 17) \<and>
   extract_features std_libs sample_detector ''http://paypal.com'' ''IsOfficialDomain'' = Some (PInt 1) \<and>
   extract_features std_libs sample_detector ''http://paypal.com'' ''NumSensitiveWords'' = Some (PInt 0)"
proof -
  have parse: "urlparse std_libs (normalize_url ''http://paypal.com'') =
      Inr \<lparr>scheme = ''http'', netloc = ''paypal.com'', path = [], query = []\<rparr>"
    by (simp add: run_paypal std_libs_simps)
  have off: "is_official std_libs sample_detector
      (py_lower (netloc \<lparr>scheme = ''http'', netloc = ''paypal.com'', path = [], query = []\<rparr>))"
    by (simp add: run_paypal run_paypal_hosts)
  from override_features_computed[OF parse off, of score_half]
  obtain r where r: "analyze std_libs sample_detector score_half ''http://paypal.com'' = (Report r, [])"
      "features r ''NumSensitiveWords'' = Some (PInt 0)"
    by blast
  from r(1) have "r = \<lparr> result = Legitimate, confidence = ''100%'', threats = [],
               features = extract_features std_libs sample_detector ''http://paypal.com'' \<rparr>"
    by (simp add: analyze_paypal(1))
  with r(2) have "extract_features std_libs sample_detector ''http://paypal.com'' ''NumSensitiveWords'' = Some (PInt 0)"
    by simp
  then show ?thesis
    by (simp add: analyze_paypal)
qed

section \<open>The statistical branch\<close>

text \<open>
  Claim C3. Every vector handed to the classifier, by \<^verbatim>\<open>analyze\<close> and by
  \<^verbatim>\<open>predict_phishing\<close>, lists exactly the names of the Feature Schema in the schema's
  order; each entry carries the value the extracted dictionary holds for its name (so
  computed features outside the schema are dropped and nothing is added), and a schema
  name that the extractor does not compute carries 0.
\<close>

theorem classifier_input_matches_schema:
  "(\<forall>v \<in> set (snd (analyze L d score url)).
      map fst v = feature_names d \<and>
      (\<forall>(n, val) \<in> set v.
         extract_features L d (normalize_url url) n = Some val \<and>
         (n \<notin> set computed_names \<longrightarrow> val = PInt 0))) \<and>
   (\<forall>v \<in> set (snd (predict_phishing L x score url)).
      map fst v = expected_features x \<and>
      (\<forall>(n, val) \<in> set v.
         extract_all_features L x url n = Some val \<and>
         (n \<notin> set computed_names \<longrightarrow> val = PInt 0)))"
proof (rule conjI; rule ballI)
  fix v
  assume "v \<in> set (snd (analyze L d score url))"
  then have v: "v = map (\<lambda>n. (n, dict_get (extract_features L d (normalize_url url)) n (PInt 0))) (feature_names d)"
    by (simp add: analyze_calls split: if_splits)
  show "map fst v = feature_names d \<and>
      (\<forall>(n, val) \<in> set v.
         extract_features L d (normalize_url url) n = Some val \<and>
         (n \<notin> set computed_names \<longrightarrow> val = PInt 0))"
    by (rule selected_entries[OF dom_extract_features _ v])
       (simp add: extract_features_other all_default_lookup)
next
  fix v
  assume "v \<in> set (snd (predict_phishing L x score url))"
  then have v: "v = map (\<lambda>n. (n, dict_get (extract_all_features L x url) n (PInt 0))) (expected_features x)"
    by (simp add: predict_calls split: if_splits)
  show "map fst v = expected_features x \<and>
      (\<forall>(n, val) \<in> set v.
         extract_all_features L x url n = Some val \<and>
         (n \<notin> set computed_names \<longrightarrow> val = PInt 0))"
    by (rule selected_entries[OF dom_extract_all_features _ v])
       (simp add: extract_all_features_other all_default_lookup)
qed

text \<open>The run on \<^verbatim>\<open>http://secure-login-verify.example.com\<close>, which is on no official list.\<close>

theorem classifier_input_matches_schema_witness:
  "snd (analyze std_libs sample_detector score_half ''http://secure-login-verify.example.com'') = [verify_vector] \<and>
   snd (predict_phishing std_libs sample_extractor score_half ''http://secure-login-verify.example.com'') = [verify_vector] \<and>
   map fst verify_vector = feature_names sample_detector \<and>
   map fst verify_vector = expected_features sample_extractor \<and>
   extract_features std_libs sample_detector (normalize_url ''http://secure-login-verify.example.com'') ''PctExtHyperlinks'' = Some (PInt 0) \<and>
   ''PctExtHyperlinks'' \<notin> set computed_names"
  using classifier_input_matches_schema[of std_libs sample_detector score_half
          "''http://secure-login-verify.example.com''" sample_extractor]
  by (simp add: analyze_verify[OF run_verify(2)] predict_verify verify_vector_def computed_names_def
        sample_detector_names sample_extractor_names sample_schema_def)

text \<open>
  Claim C4. When \<^verbatim>\<open>analyze\<close> (or \<^verbatim>\<open>predict_phishing\<close>) has called the classifier on a
  vector \<open>v\<close> and returns a result, the verdict is Phishing exactly when the probability
  \<open>score v\<close> is strictly greater than 0.7; at probability 0.7 the verdict is Legitimate.
\<close>

theorem verdict_threshold:
  "(analyze L d score url = (Report r, [v]) \<longrightarrow>
      (result r = Phishing \<longleftrightarrow> score v > 7 / 10) \<and> (score v = 7 / 10 \<longrightarrow> result r = Legitimate)) \<and>
   (predict_phishing L x score url = (Report r', [v']) \<longrightarrow>
      (result r' = Phishing \<longleftrightarrow> score v' > 7 / 10) \<and> (score v' = 7 / 10 \<longrightarrow> result r' = Legitimate))"
proof (intro conjI impI)
  assume run: "analyze L d score url = (Report r, [v])"
  then have stat: "\<not> truthy (dict_get (extract_features L d (normalize_url url)) ''IsOfficialDomain'' (PInt 0))"
    using analyze_override[of L d url score] by auto
  from run show "result r = Phishing \<longleftrightarrow> score v > 7 / 10"
    unfolding analyze_statistical[OF stat] Let_def by (auto split: option.splits if_splits)
  from run show "result r = Legitimate" if "score v = 7 / 10"
    using that unfolding analyze_statistical[OF stat] Let_def by (auto split: option.splits if_splits)
next
  assume run: "predict_phishing L x score url = (Report r', [v'])"
  then have stat: "\<not> truthy (dict_get (extract_all_features L x url) ''IsOfficialDomain'' (PInt 0))"
    using predict_override[of L x url score] by auto
  from run show "result r' = Phishing \<longleftrightarrow> score v' > 7 / 10"
    unfolding predict_statistical[OF stat] Let_def by (auto split: if_splits)
  from run show "result r' = Legitimate" if "score v' = 7 / 10"
    using that unfolding predict_statistical[OF stat] Let_def by (auto split: if_splits)
qed

text \<open>Probability exactly 0.7 gives Legitimate; probability 1 gives Phishing.\<close>

theorem verdict_threshold_witness:
  "analyze std_libs sample_detector score_threshold ''http://secure-login-verify.example.com'' =
     (Report \<lparr> result = Legitimate, confidence = ''70%'',
               threats = [''No HTTPS'', ''3 sensitive words''],
               features = extract_features std_libs sample_detector ''http://secure-login-verify.example.com'' \<rparr>,
      [verify_vector]) \<and>
   score_threshold verify_vector = 7 / 10 \<and>
   predict_phishing std_libs sample_extractor score_one ''http://secure-login-verify.example.com'' =
     (Report \<lparr> result = Phishing, confidence = ''99%'',
               threats = [''No HTTPS'', ''3 sensitive words''],
               features = extract_all_features std_libs sample_extractor ''http://secure-login-verify.example.com'' \<rparr>,
      [verify_vector]) \<and>
   score_one verify_vector > 7 / 10"
  using verdict_threshold[of std_libs sample_detector score_threshold "''http://secure-login-verify.example.com''"
     "\<lparr> result = Legitimate, confidence = ''70%'',
               threats = [''No HTTPS'', ''3 sensitive words''],
               features = extract_features std_libs sample_detector ''http://secure-login-verify.example.com'' \<rparr>"
     verify_vector]
  by (simp add: analyze_verify[OF run_verify(2)] predict_verify score_threshold_def score_one_def confidence_samples)

text \<open>
  Claim C5 says that on the statistical branch the confidence equals
  \<open>min(99, floor(p * 100))\<close>. The program computes \<^verbatim>\<open>int(proba*100)\<close> on floats, and
  the float product is rounded before it is truncated. For the double nearest to 0.15,
  whose value is just below 0.15, the exact product is just below 15 and its floor is 14;
  the float product is 15.0, and the result reads \<^verbatim>\<open>15%\<close>.
\<close>

theorem confidence_exact_floor_counterexample:
  "analyze std_libs sample_detector score_near_015 ''http://secure-login-verify.example.com'' =
     (Report \<lparr> result = Legitimate, confidence = ''15%'',
               threats = [''No HTTPS'', ''3 sensitive words''],
               features = extract_features std_libs sample_detector ''http://secure-login-verify.example.com'' \<rparr>,
      [verify_vector]) \<and>
   0 \<le> score_near_015 verify_vector \<and> score_near_015 verify_vector \<le> 1 \<and>
   str_int (min 99 \<lfloor>score_near_015 verify_vector * 100\<rfloor>) @ ''%'' = ''14%''"
  by (simp add: analyze_verify[OF run_verify(2)] score_near_015_def confidence_samples)

text \<open>
  Claim C5, amended. Let \<^verbatim>\<open>analyze\<close> (or \<^verbatim>\<open>predict_phishing\<close>) return a result, and let
  every probability the classifier returned on that call lie in \<open>[0, 1]\<close>. If the
  classifier was called, on a vector \<open>v\<close>, the confidence string is
  \<open>min(99, floor(score v * 100))\<close> with the product taken in double precision, followed by
  the percent sign; that number lies between 0 and 99, and the floor of the double product
  is the floor of the exact product or one more. The confidence string is \<^verbatim>\<open>100%\<close>
  exactly when the URL parses and its hostname passes the official check, which is the
  override branch.
\<close>

theorem confidence_capped:
  "(analyze L d score url = (Report r, calls) \<and> (\<forall>v \<in> set calls. 0 \<le> score v \<and> score v \<le> 1) \<longrightarrow>
      (\<forall>v. calls = [v] \<longrightarrow>
         confidence r = str_int (min 99 \<lfloor>double_mul (score v) 100\<rfloor>) @ ''%'' \<and>
         0 \<le> min 99 \<lfloor>double_mul (score v) 100\<rfloor> \<and> min 99 \<lfloor>double_mul (score v) 100\<rfloor> \<le> 99 \<and>
         \<lfloor>score v * 100\<rfloor> \<le> \<lfloor>double_mul (score v) 100\<rfloor> \<and>
         \<lfloor>double_mul (score v) 100\<rfloor> \<le> \<lfloor>score v * 100\<rfloor> + 1) \<and>
      (confidence r = ''100%'' \<longleftrightarrow>
         (\<exists>parsed. urlparse L (normalize_url url) = Inr parsed \<and>
                   is_official L d (py_lower (netloc parsed))))) \<and>
   (predict_phishing L x score url = (Report r', calls') \<and> (\<forall>v \<in> set calls'. 0 \<le> score v \<and> score v \<le> 1) \<longrightarrow>
      (\<forall>v. calls' = [v] \<longrightarrow>
         confidence r' = str_int (min 99 \<lfloor>double_mul (score v) 100\<rfloor>) @ ''%'' \<and>
         0 \<le> min 99 \<lfloor>double_mul (score v) 100\<rfloor> \<and> min 99 \<lfloor>double_mul (score v) 100\<rfloor> \<le> 99 \<and>
         \<lfloor>score v * 100\<rfloor> \<le> \<lfloor>double_mul (score v) 100\<rfloor> \<and>
         \<lfloor>double_mul (score v) 100\<rfloor> \<le> \<lfloor>score v * 100\<rfloor> + 1) \<and>
      (confidence r' = ''100%'' \<longleftrightarrow>
         (\<exists>parsed. urlparse L url = Inr parsed \<and>
                   is_official_domain x (py_lower (netloc parsed)))))"
proof (rule conjI; rule impI; erule conjE)
  assume run: "analyze L d score url = (Report r, calls)"
     and range: "\<forall>v \<in> set calls. 0 \<le> score v \<and> score v \<le> 1"
  let ?off = "truthy (dict_get (extract_features L d (normalize_url url)) ''IsOfficialDomain'' (PInt 0))"
  show "(\<forall>v. calls = [v] \<longrightarrow>
         confidence r = str_int (min 99 \<lfloor>double_mul (score v) 100\<rfloor>) @ ''%'' \<and>
         0 \<le> min 99 \<lfloor>double_mul (score v) 100\<rfloor> \<and> min 99 \<lfloor>double_mul (score v) 100\<rfloor> \<le> 99 \<and>
         \<lfloor>score v * 100\<rfloor> \<le> \<lfloor>double_mul (score v) 100\<rfloor> \<and>
         \<lfloor>double_mul (score v) 100\<rfloor> \<le> \<lfloor>score v * 100\<rfloor> + 1) \<and>
      (confidence r = ''100%'' \<longleftrightarrow>
         (\<exists>parsed. urlparse L (normalize_url url) = Inr parsed \<and>
                   is_official L d (py_lower (netloc parsed))))"
  proof (cases ?off)
    case True
    from run have "calls = []" "confidence r = ''100%''"
      by (auto simp: analyze_override[OF True])
    with True show ?thesis
      by (simp add: override_iff_official)
  next
    case False
    let ?v = "map (\<lambda>n. (n, dict_get (extract_features L d (normalize_url url)) n (PInt 0))) (feature_names d)"
    from run have calls: "calls = [?v]"
      using analyze_calls[of L d score url] False by simp
    from run have conf: "confidence r = str_int (confidence_percent (score ?v)) @ ''%''"
      unfolding analyze_statistical[OF False] Let_def by (auto split: option.splits)
    from range calls have p: "0 \<le> score ?v" "score ?v \<le> 1" by simp_all
    note fl = confidence_percent_floor[OF p] and rg = confidence_percent_range[OF p]
      and bd = floor_double_mul_percent(2,3)[OF p]
    have not100: "confidence r \<noteq> ''100%''"
      unfolding conf using str_int_not_100[of "confidence_percent (score ?v)"] rg by simp
    have notoff: "\<not> (\<exists>parsed. urlparse L (normalize_url url) = Inr parsed \<and>
                   is_official L d (py_lower (netloc parsed)))"
      using False by (simp add: override_iff_official)
    show ?thesis
      using calls conf fl rg bd not100 notoff by simp
  qed
next
  assume run: "predict_phishing L x score url = (Report r', calls')"
     and range: "\<forall>v \<in> set calls'. 0 \<le> score v \<and> score v \<le> 1"
  let ?off = "truthy (dict_get (extract_all_features L x url) ''IsOfficialDomain'' (PInt 0))"
  show "(\<forall>v. calls' = [v] \<longrightarrow>
         confidence r' = str_int (min 99 \<lfloor>double_mul (score v) 100\<rfloor>) @ ''%'' \<and>
         0 \<le> min 99 \<lfloor>double_mul (score v) 100\<rfloor> \<and> min 99 \<lfloor>double_mul (score v) 100\<rfloor> \<le> 99 \<and>
         \<lfloor>score v * 100\<rfloor> \<le> \<lfloor>double_mul (score v) 100\<rfloor> \<and>
         \<lfloor>double_mul (score v) 100\<rfloor> \<le> \<lfloor>score v * 100\<rfloor> + 1) \<and>
      (confidence r' = ''100%'' \<longleftrightarrow>
         (\<exists>parsed. urlparse L url = Inr parsed \<and>
                   is_official_domain x (py_lower (netloc parsed))))"
  proof (cases ?off)
    case True
    from run have "calls' = []" "confidence r' = ''100%''"
      by (auto simp: predict_override[OF True])
    with True show ?thesis
      by (simp add: predict_override_iff_official)
  next
    case False
    let ?v = "map (\<lambda>n. (n, dict_get (extract_all_features L x url) n (PInt 0))) (expected_features x)"
    from run have calls: "calls' = [?v]"
      using predict_calls[of L x score url] False by simp
    from run have conf: "confidence r' = str_int (confidence_percent (score ?v)) @ ''%''"
      unfolding predict_statistical[OF False] Let_def by auto
    from range calls have p: "0 \<le> score ?v" "score ?v \<le> 1" by simp_all
    note fl = confidence_percent_floor[OF p] and rg = confidence_percent_range[OF p]
      and bd = floor_double_mul_percent(2,3)[OF p]
    have not100: "confidence r' \<noteq> ''100%''"
      unfolding conf using str_int_not_100[of "confidence_percent (score ?v)"] rg by simp
    have notoff: "\<not> (\<exists>parsed. urlparse L url = Inr parsed \<and>
                   is_official_domain x (py_lower (netloc parsed)))"
      using False by (simp add: predict_override_iff_official)
    show ?thesis
      using calls conf fl rg bd not100 notoff by simp
  qed
qed

text \<open>
  Probability exactly 1 gives \<^verbatim>\<open>99%\<close> in both copies; the official host \<^verbatim>\<open>paypal.com\<close>
  gives \<^verbatim>\<open>100%\<close> in both.
\<close>

theorem confidence_capped_witness:
  "analyze std_libs sample_detector score_one ''http://secure-login-verify.example.com'' =
     (Report \<lparr> result = Phishing, confidence = ''99%'',
               threats = [''No HTTPS'', ''3 sensitive words''],
               features = extract_features std_libs sample_detector ''http://secure-login-verify.example.com'' \<rparr>,
      [verify_vector]) \<and>
   predict_phishing std_libs sample_extractor score_one ''http://secure-login-verify.example.com'' =
     (Report \<lparr> result = Phishing, confidence = ''99%'',
               threats = [''No HTTPS'', ''3 sensitive words''],
               features = extract_all_features std_libs sample_extractor ''http://secure-login-verify.example.com'' \<rparr>,
      [verify_vector]) \<and>
   score_one verify_vector = 1 \<and>
   \<lfloor>double_mul (score_one verify_vector) 100\<rfloor> = 100 \<and>
   analyze std_libs sample_detector score_one ''http://paypal.com'' =
     (Report \<lparr> result = Legitimate, confidence = ''100%'', threats = [],
               features = extract_features std_libs sample_detector ''http://paypal.com'' \<rparr>, []) \<and>
   predict_phishing std_libs sample_extractor score_one ''http://paypal.com'' =
     (Report \<lparr> result = Legitimate, confidence = ''100%'', threats = [],
               features = extract_all_features std_libs sample_extractor ''http://paypal.com'' \<rparr>, [])"
proof -
  have m: "double_mul 1 100 = 100"
    using round_double_int[of 100] by (simp add: double_mul_def)
  show ?thesis
    using confidence_capped[of std_libs sample_detector score_one "''http://secure-login-verify.example.com''"
       "\<lparr> result = Phishing, confidence = ''99%'',
               threats = [''No HTTPS'', ''3 sensitive words''],
               features = extract_features std_libs sample_detector ''http://secure-login-verify.example.com'' \<rparr>"
       "[verify_vector]" sample_extractor
       "\<lparr> result = Phishing, confidence = ''99%'',
               threats = [''No HTTPS'', ''3 sensitive words''],
               features = extract_all_features std_libs sample_extractor ''http://secure-login-verify.example.com'' \<rparr>"
       "[verify_vector]"]
      confidence_capped[of std_libs sample_detector score_one "''http://paypal.com''"
       "\<lparr> result = Legitimate, confidence = ''100%'', threats = [],
               features = extract_features std_libs sample_detector ''http://paypal.com'' \<rparr>"
       "[]" sample_extractor
       "\<lparr> result = Legitimate, confidence = ''100%'', threats = [],
               features = extract_all_features std_libs sample_extractor ''http://paypal.com'' \<rparr>"
       "[]"]
    by (simp add: analyze_verify[OF run_verify(2)] predict_verify analyze_paypal predict_paypal
          score_one_def confidence_samples m)
qed

section \<open>Feature rules\<close>

text \<open>
  Claim C6. When the URL parses, \<open>NumSensitiveWords\<close> is 0 for an official hostname and
  otherwise the number of configured sensitive words that occur as contiguous substrings
  of the lower-cased URL; a word counts once per entry of the configured list. This holds
  for \<^verbatim>\<open>extract_features\<close> and for \<^verbatim>\<open>extract_all_features\<close>, each with its own official
  check.
\<close>

theorem num_sensitive_words_count:
  assumes "urlparse L url = Inr parsed"
      and "hostname = py_lower (netloc parsed)"
  shows "extract_features L d url ''NumSensitiveWords'' =
           Some (PInt (if is_official L d hostname then 0
                       else int (length (filter (\<lambda>w. sublist w (py_lower url)) (sensitive_words d))))) \<and>
         extract_all_features L x url ''NumSensitiveWords'' =
           Some (PInt (if is_official_domain x hostname then 0
                       else int (length (filter (\<lambda>w. sublist w (py_lower url)) (fx_sensitive_words x)))))"
  using assms
  by (simp add: extract_features_words count_words_in_filter extract_all_features_def
        dict_update_lookup all_feature_updates_def url_features_def Let_def)

text \<open>
  The URL \<^verbatim>\<open>http://secure-login-verify.example.com\<close> contains \<^verbatim>\<open>secure\<close>, \<^verbatim>\<open>login\<close> and
  \<^verbatim>\<open>verify\<close>: the count is 3.
\<close>

theorem num_sensitive_words_count_witness:
  "extract_features std_libs sample_detector ''http://secure-login-verify.example.com'' ''NumSensitiveWords'' = Some (PInt 3) \<and>
   extract_all_features std_libs sample_extractor ''http://secure-login-verify.example.com'' ''NumSensitiveWords'' = Some (PInt 3) \<and>
   int (length (filter (\<lambda>w. sublist w (py_lower ''http://secure-login-verify.example.com''))
          (sensitive_words sample_detector))) = 3"
  using num_sensitive_words_count[of std_libs "''http://secure-login-verify.example.com''"
     "\<lparr>scheme = ''http'', netloc = ''secure-login-verify.example.com'', path = [], query = []\<rparr>"
     "''secure-login-verify.example.com''" sample_detector sample_extractor]
  by (simp add: std_libs_simps run_verify lookups_verify all_lookups_verify)

text \<open>
  Claim C7. \<^verbatim>\<open>check_brand_usage\<close> returns 0 for an official hostname; otherwise it returns
  1 exactly when some known brand occurs in the lower-cased hostname and does not occur in
  the registrable domain \<^verbatim>\<open>domain.suffix\<close>. \<^verbatim>\<open>check_brand_spoofing\<close> does the same with
  its own official check and brand list.
\<close>

theorem brand_spoofed_iff:
  "check_brand_usage L d hostname =
     (if is_official L d hostname then 0
      else if \<exists>brand \<in> set (known_brands d).
                sublist brand (py_lower hostname) \<and>
                \<not> sublist brand (base_domain (tldextract L (py_lower hostname)))
           then 1 else 0) \<and>
   check_brand_spoofing L x hostname =
     (if is_official_domain x hostname then 0
      else if \<exists>brand \<in> set brand_names.
                sublist brand (py_lower hostname) \<and>
                \<not> sublist brand (base_domain (tldextract L (py_lower hostname)))
           then 1 else 0)"
  by (simp add: check_brand_usage_def check_brand_spoofing_def Let_def brand_loop_iff)

text \<open>\<^verbatim>\<open>paypal.evil-host.com\<close> is flagged, \<^verbatim>\<open>paypal.com\<close> is not.\<close>

theorem brand_spoofed_iff_witness:
  "check_brand_usage std_libs sample_detector ''paypal.evil-host.com'' = 1 \<and>
   check_brand_spoofing std_libs sample_extractor ''paypal.evil-host.com'' = 1 \<and>
   check_brand_usage std_libs sample_detector ''paypal.com'' = 0 \<and>
   check_brand_spoofing std_libs sample_extractor ''paypal.com'' = 0"
proof -
  have ex1: "\<exists>brand \<in> set (known_brands sample_detector).
               sublist brand (py_lower ''paypal.evil-host.com'') \<and>
               \<not> sublist brand (base_domain (tldextract std_libs (py_lower ''paypal.evil-host.com'')))"
    by (rule bexI[of _ "''paypal''"]) (simp_all add: run_paypal_hosts std_libs_simps)
  have ex2: "\<exists>brand \<in> set brand_names.
               sublist brand (py_lower ''paypal.evil-host.com'') \<and>
               \<not> sublist brand (base_domain (tldextract std_libs (py_lower ''paypal.evil-host.com'')))"
    by (rule bexI[of _ "''paypal''"]) (simp_all add: run_paypal_hosts std_libs_simps)
  show ?thesis
    using brand_spoofed_iff[of std_libs sample_detector "''paypal.evil-host.com''" sample_extractor]
          brand_spoofed_iff[of std_libs sample_detector "''paypal.com''" sample_extractor]
          ex1 ex2
    by (simp add: run_paypal_hosts)
qed

section \<open>Input without a scheme\<close>

text \<open>
  Claim C10 speaks of every input string without an \<^verbatim>\<open>http://\<close> or \<^verbatim>\<open>https://\<close> prefix
  whose hostname is not official. For the input \<^verbatim>\<open>[\<close> the normalized string \<^verbatim>\<open>http://[\<close>
  is rejected by \<^verbatim>\<open>urlparse\<close>, \<^verbatim>\<open>extract_features\<close> falls back to the defaults, and
  \<^verbatim>\<open>analyze\<close> calls the classifier and returns a result with \<open>NoHttps = 0\<close> and an empty
  list of threats.
\<close>

theorem no_https_rejected_input_counterexample:
  "\<not> prefix ''http://'' ''['' \<and> \<not> prefix ''https://'' ''['' \<and>
   \<not> is_official std_libs sample_detector ''['' \<and>
   length (snd (analyze std_libs sample_detector score_half ''['')) = 1 \<and>
   result_feature (fst (analyze std_libs sample_detector score_half ''['')) ''NoHttps'' = Some (PInt 0) \<and>
   result_threats (fst (analyze std_libs sample_detector score_half ''['')) = Some []"
proof -
  have fail: "urlparse std_libs (normalize_url ''['') = Inl (ValueError ''Invalid IPv6 URL'')"
    by (simp add: run_bracket_input run_bracket std_libs_simps)
  have nh: "''NoHttps'' \<in> set (feature_names sample_detector)"
    by (simp add: sample_detector_names sample_schema_members)
  show ?thesis
    by (simp add: analyze_rejected[OF fail nh] run_bracket_input result_feature_def
          result_threats_def all_default_lookup nh)
qed

text \<open>
  Claim C10, amended. Let the input start with neither \<^verbatim>\<open>http://\<close> nor \<^verbatim>\<open>https://\<close>, let
  \<^verbatim>\<open>urlparse\<close> accept the normalized string \<^verbatim>\<open>http://\<close> + input, and let its hostname not
  be official. With a \<^verbatim>\<open>urlparse\<close> that reports the scheme \<^verbatim>\<open>http\<close> for strings starting
  with \<^verbatim>\<open>http://\<close>, \<^verbatim>\<open>analyze\<close> calls the classifier once and returns a result with
  \<open>NoHttps = 1\<close> whose list of threats is not empty and starts with \<^verbatim>\<open>No HTTPS\<close>.
\<close>

theorem no_https_first_threat:
  assumes "keeps_http_scheme L"
      and "\<not> prefix ''http://'' url" "\<not> prefix ''https://'' url"
      and "urlparse L (''http://'' @ url) = Inr parsed"
      and "\<not> is_official L d (py_lower (netloc parsed))"
  shows "\<exists>r v. analyze L d score url = (Report r, [v]) \<and>
               features r ''NoHttps'' = Some (PInt 1) \<and>
               threats r \<noteq> [] \<and> hd (threats r) = ''No HTTPS''"
proof -
  have norm: "normalize_url url = ''http://'' @ url"
    using assms(2,3) by (simp add: normalize_url_def)
  have sch: "scheme parsed = ''http''"
    using assms(1,4) by (auto simp: keeps_http_scheme_def)
  have off: "extract_features L d (normalize_url url) ''IsOfficialDomain'' = Some (PInt 0)"
    using assms(4,5) by (simp add: norm extract_features_official int_of_bool_def)
  have nh: "extract_features L d (normalize_url url) ''NoHttps'' = Some (PInt 1)"
    using assms(4) sch by (simp add: norm extract_features_no_https int_of_bool_def)
  have stat: "\<not> truthy (dict_get (extract_features L d (normalize_url url)) ''IsOfficialDomain'' (PInt 0))"
    using off by (simp add: dict_get_def)
  show ?thesis
    unfolding analyze_statistical[OF stat] Let_def
    using nh by (simp add: threat_list_def)
qed

text \<open>The run on \<^verbatim>\<open>secure-login-verify.example.com\<close>, typed without a scheme.\<close>

theorem no_https_first_threat_witness:
  "\<not> prefix ''http://'' ''secure-login-verify.example.com'' \<and>
   \<not> prefix ''https://'' ''secure-login-verify.example.com'' \<and>
   analyze std_libs sample_detector score_half ''secure-login-verify.example.com'' =
     (Report \<lparr> result = Legitimate, confidence = ''50%'',
               threats = [''No HTTPS'', ''3 sensitive words''],
               features = extract_features std_libs sample_detector ''http://secure-login-verify.example.com'' \<rparr>,
      [verify_vector])"
  using no_https_first_threat[OF std_libs_keeps_http, of "''secure-login-verify.example.com''"
     "\<lparr>scheme = ''http'', netloc = ''secure-login-verify.example.com'', path = [], query = []\<rparr>"
     sample_detector score_half]
  by (simp add: std_libs_simps run_verify analyze_verify[OF run_verify(1)] score_half_def confidence_samples)

section \<open>Malformed input\<close>

text \<open>
  Claim C8 says that for malformed input such as \<^verbatim>\<open>http://\<close> the result carries the
  all-default feature vector. \<^verbatim>\<open>urlparse\<close> accepts \<^verbatim>\<open>http://\<close> (empty network location,
  empty path), nothing in the \<^verbatim>\<open>try\<close> block of \<^verbatim>\<open>extract_features\<close> raises, and the
  result holds the computed features: the schema feature \<open>UrlLength\<close> is 7, not 0.
\<close>

theorem malformed_input_default_counterexample:
  "std_urlparse ''http://'' = Inr \<lparr>scheme = ''http'', netloc = [], path = [], query = []\<rparr> \<and>
   ''UrlLength'' \<in> set (feature_names sample_detector) \<and>
   result_feature (fst (analyze std_libs sample_detector score_half ''http://'')) ''UrlLength'' = Some (PInt 7) \<and>
   all_default (feature_names sample_detector) ''UrlLength'' = Some (PInt 0)"
proof -
  obtain r calls where "analyze std_libs sample_detector score_half ''http://'' = (Report r, calls)"
      "features r = extract_features std_libs sample_detector ''http://''"
    using analyze_empty_host(4) by blast
  then show ?thesis
    by (simp add: result_feature_def analyze_empty_host run_empty_host sample_detector_names
          sample_schema_members all_default_lookup)
qed

text \<open>
  Claim C8, amended. \<^verbatim>\<open>analyze\<close> returns a value for every input. When \<^verbatim>\<open>urlparse\<close>
  raises on the normalized string and the schema declares \<open>NoHttps\<close>, the classifier is
  called on the all-zero schema vector and the result carries the all-default features
  and no threat. When \<^verbatim>\<open>urlparse\<close> returns, as it does for \<^verbatim>\<open>http://\<close>, \<^verbatim>\<open>analyze\<close>
  returns a result whose features are the defaults updated with the computed features,
  \<open>UrlLength\<close> being the length of the normalized string.
\<close>

theorem extraction_failure_recovered:
  "(urlparse L (normalize_url url) = Inl e \<and> ''NoHttps'' \<in> set (feature_names d) \<longrightarrow>
      (\<exists>r. analyze L d score url = (Report r, [map (\<lambda>n. (n, PInt 0)) (feature_names d)]) \<and>
           features r = all_default (feature_names d) \<and> threats r = [])) \<and>
   (urlparse L (normalize_url url) = Inr parsed \<longrightarrow>
      (\<exists>r calls. analyze L d score url = (Report r, calls) \<and>
           features r = dict_update (all_default (feature_names d))
                          (feature_updates L d (normalize_url url) parsed) \<and>
           features r ''UrlLength'' = Some (PInt (int (length (normalize_url url))))))"
proof (rule conjI; rule impI)
  assume "urlparse L (normalize_url url) = Inl e \<and> ''NoHttps'' \<in> set (feature_names d)"
  then have fail: "urlparse L (normalize_url url) = Inl e" and nh: "''NoHttps'' \<in> set (feature_names d)"
    by simp_all
  have fs: "extract_features L d (normalize_url url) = all_default (feature_names d)"
    using fail by (simp add: extract_features_def default_features_def)
  have stat: "\<not> truthy (dict_get (extract_features L d (normalize_url url)) ''IsOfficialDomain'' (PInt 0))"
    by (simp add: fs dict_get_def all_default_lookup)
  have vec: "map (\<lambda>n. (n, dict_get (all_default (feature_names d)) n (PInt 0))) (feature_names d)
             = map (\<lambda>n. (n, PInt 0)) (feature_names d)"
    by (simp add: dict_get_def all_default_lookup)
  show "\<exists>r. analyze L d score url = (Report r, [map (\<lambda>n. (n, PInt 0)) (feature_names d)]) \<and>
           features r = all_default (feature_names d) \<and> threats r = []"
    unfolding analyze_statistical[OF stat] Let_def fs vec
    using nh by (simp add: all_default_lookup threat_list_default)
next
  assume parse: "urlparse L (normalize_url url) = Inr parsed"
  let ?fs = "extract_features L d (normalize_url url)"
  have upd: "?fs = dict_update (all_default (feature_names d)) (feature_updates L d (normalize_url url) parsed)"
    using parse by (simp add: extract_features_def default_features_def)
  have len: "?fs ''UrlLength'' = Some (PInt (int (length (normalize_url url))))"
    using parse by (simp add: extract_features_url_length)
  have nh: "?fs ''NoHttps'' = Some (PInt (int_of_bool (scheme parsed \<noteq> ''https'')))"
    using parse by (simp add: extract_features_no_https)
  show "\<exists>r calls. analyze L d score url = (Report r, calls) \<and>
           features r = dict_update (all_default (feature_names d))
                          (feature_updates L d (normalize_url url) parsed) \<and>
           features r ''UrlLength'' = Some (PInt (int (length (normalize_url url))))"
  proof (cases "truthy (dict_get ?fs ''IsOfficialDomain'' (PInt 0))")
    case True
    show ?thesis
      unfolding analyze_override[OF True] using upd len by simp
  next
    case False
    show ?thesis
      unfolding analyze_statistical[OF False] Let_def nh using upd len by simp
  qed
qed

text \<open>
  \<^verbatim>\<open>http://[\<close> is rejected by the parser and gives the defaults; \<^verbatim>\<open>http://\<close> is accepted
  and gives \<open>UrlLength = 7\<close>.
\<close>

theorem extraction_failure_recovered_witness:
  "analyze std_libs sample_detector score_half ''http://['' =
     (Report \<lparr> result = Legitimate, confidence = ''50%'', threats = [],
               features = all_default sample_schema \<rparr>,
      [map (\<lambda>n. (n, PInt 0)) sample_schema]) \<and>
   result_feature (fst (analyze std_libs sample_detector score_half ''http://'')) ''UrlLength'' = Some (PInt 7)"
proof -
  have fail: "urlparse std_libs (normalize_url ''http://['') = Inl (ValueError ''Invalid IPv6 URL'')"
    by (simp add: run_bracket std_libs_simps)
  have nh: "''NoHttps'' \<in> set (feature_names sample_detector)"
    by (simp add: sample_detector_names sample_schema_members)
  have parse: "urlparse std_libs (normalize_url ''http://'') = Inr \<lparr>scheme = ''http'', netloc = [], path = [], query = []\<rparr>"
    by (simp add: run_empty_host std_libs_simps)
  from extraction_failure_recovered[of std_libs "''http://[''" "ValueError ''Invalid IPv6 URL''" sample_detector score_half] fail nh
  obtain r where r: "analyze std_libs sample_detector score_half ''http://['' =
        (Report r, [map (\<lambda>n. (n, PInt 0)) (feature_names sample_detector)])"
      "features r = all_default (feature_names sample_detector)" "threats r = []"
    by blast
  have stat: "\<not> truthy (dict_get (extract_features std_libs sample_detector (normalize_url ''http://['')) ''IsOfficialDomain'' (PInt 0))"
    using fail by (simp add: extract_features_def default_features_def dict_get_def all_default_lookup)
  have a: "analyze std_libs sample_detector score_half ''http://['' =
     (Report \<lparr> result = Legitimate, confidence = ''50%'', threats = [],
               features = all_default sample_schema \<rparr>,
      [map (\<lambda>n. (n, PInt 0)) sample_schema])"
    using r unfolding analyze_statistical[OF stat] Let_def
    by (auto simp: sample_detector_names score_half_def confidence_samples split: option.splits)
  from extraction_failure_recovered[of std_libs "''http://''" _ sample_detector score_half] parse
  obtain r' calls where "analyze std_libs sample_detector score_half ''http://'' = (Report r', calls)"
      "features r' ''UrlLength'' = Some (PInt (int (length (normalize_url ''http://''))))"
    by blast
  then have b: "result_feature (fst (analyze std_libs sample_detector score_half ''http://'')) ''UrlLength'' = Some (PInt 7)"
    by (simp add: result_feature_def run_empty_host)
  from a b show ?thesis by simp
qed

section \<open>The two extractors\<close>

text \<open>
  Claim C9 says that \<^verbatim>\<open>extract_features\<close> and \<^verbatim>\<open>extract_all_features\<close> return equal
  vectors for every URL and agree on \<open>IsOfficialDomain\<close>. The official list of
  \<^verbatim>\<open>PhishingDetector\<close> has \<^verbatim>\<open>ebay.com\<close>, the one of \<^verbatim>\<open>URLFeatureExtractor\<close> does not:
  on \<^verbatim>\<open>http://ebay.com\<close> the first sets \<open>IsOfficialDomain\<close> to 1 and the second to 0.
\<close>

theorem extractors_differ_counterexample:
  "extract_features std_libs sample_detector ''http://ebay.com'' ''IsOfficialDomain'' = Some (PInt 1) \<and>
   extract_all_features std_libs sample_extractor ''http://ebay.com'' ''IsOfficialDomain'' = Some (PInt 0)"
proof -
  have parse: "urlparse std_libs ''http://ebay.com'' =
      Inr \<lparr>scheme = ''http'', netloc = ''ebay.com'', path = [], query = []\<rparr>"
    by (simp add: run_ebay std_libs_simps)
  show ?thesis
    by (simp add: extract_features_official[OF parse] extract_all_features_official[OF parse]
          run_ebay int_of_bool_def)
qed

text \<open>
  Claim C9, amended. Under the same schema, the two extractors agree on every feature
  other than \<open>IsOfficialDomain\<close>, \<open>BrandSpoofing\<close> and \<open>NumSensitiveWords\<close>. A hostname
  that \<^verbatim>\<open>extract_all_features\<close> marks official is marked official by
  \<^verbatim>\<open>extract_features\<close> too. Where the two official checks agree on the hostname, the
  extractors also agree on \<open>IsOfficialDomain\<close> and \<open>NumSensitiveWords\<close>.
\<close>

theorem extractors_agree_outside_policy:
  "(\<forall>n. n \<notin> {''IsOfficialDomain'', ''BrandSpoofing'', ''NumSensitiveWords''} \<longrightarrow>
        extract_features L (PhishingDetector names) url n =
        extract_all_features L (URLFeatureExtractor names) url n) \<and>
   (extract_all_features L (URLFeatureExtractor names) url ''IsOfficialDomain'' = Some (PInt 1) \<longrightarrow>
        extract_features L (PhishingDetector names) url ''IsOfficialDomain'' = Some (PInt 1)) \<and>
   ((\<forall>parsed. urlparse L url = Inr parsed \<longrightarrow>
        is_official L (PhishingDetector names) (py_lower (netloc parsed)) =
        is_official_domain (URLFeatureExtractor names) (py_lower (netloc parsed))) \<longrightarrow>
        extract_features L (PhishingDetector names) url ''IsOfficialDomain'' =
        extract_all_features L (URLFeatureExtractor names) url ''IsOfficialDomain'' \<and>
        extract_features L (PhishingDetector names) url ''NumSensitiveWords'' =
        extract_all_features L (URLFeatureExtractor names) url ''NumSensitiveWords'')"
proof (cases "urlparse L url")
  case (Inl e)
  then show ?thesis
    by (simp add: extract_features_def extract_all_features_def default_features_def same_schema
          all_default_lookup)
next
  case (Inr parsed)
  let ?D = "PhishingDetector names" and ?X = "URLFeatureExtractor names"
  have others: "extract_features L ?D url n = extract_all_features L ?X url n"
    if "n \<notin> {''IsOfficialDomain'', ''BrandSpoofing'', ''NumSensitiveWords''}" for n
  proof -
    have "extract_features L ?D url n =
          dict_update (all_default names)
            (url_features L url parsed (tldextract L url) (py_lower (netloc parsed)) (py_lower (path parsed))) n"
      using that Inr
      by (simp add: extract_features_def default_features_def same_schema feature_updates_def Let_def
            dict_update_append_other)
    also have "\<dots> = dict_update (all_default names)
            (url_features L url parsed (tldextract L url) (py_lower (netloc parsed)) (path parsed)) n"
      by (simp only: url_features_py_lower)
    also have "\<dots> = extract_all_features L ?X url n"
      using that Inr
      by (simp add: extract_all_features_def same_schema all_feature_updates_def Let_def
            dict_update_append_other)
    finally show ?thesis .
  qed
  have one_way: "extract_features L ?D url ''IsOfficialDomain'' = Some (PInt 1)"
    if "extract_all_features L ?X url ''IsOfficialDomain'' = Some (PInt 1)"
  proof -
    from that have "is_official_domain ?X (py_lower (netloc parsed))"
      by (simp add: extract_all_features_official[OF Inr] int_of_bool_def split: if_splits)
    then have "is_official L ?D (py_lower (netloc parsed))"
      by (rule is_official_domain_imp_is_official)
    then show ?thesis
      by (simp add: extract_features_official[OF Inr] int_of_bool_def)
  qed
  have agree: "extract_features L ?D url ''IsOfficialDomain'' = extract_all_features L ?X url ''IsOfficialDomain'' \<and>
        extract_features L ?D url ''NumSensitiveWords'' = extract_all_features L ?X url ''NumSensitiveWords''"
    if h: "\<forall>parsed. urlparse L url = Inr parsed \<longrightarrow>
        is_official L ?D (py_lower (netloc parsed)) = is_official_domain ?X (py_lower (netloc parsed))"
  proof -
    from h Inr have "is_official L ?D (py_lower (netloc parsed)) = is_official_domain ?X (py_lower (netloc parsed))"
      by simp
    then show ?thesis
      by (simp add: extract_features_official[OF Inr] extract_all_features_official[OF Inr]
            extract_features_words[OF Inr] extract_all_features_words[OF Inr] same_schema)
  qed
  show ?thesis
  proof (intro conjI allI impI)
    fix n
    assume "n \<notin> {''IsOfficialDomain'', ''BrandSpoofing'', ''NumSensitiveWords''}"
    then show "extract_features L ?D url n = extract_all_features L ?X url n"
      by (rule others)
  next
    assume "extract_all_features L ?X url ''IsOfficialDomain'' = Some (PInt 1)"
    then show "extract_features L ?D url ''IsOfficialDomain'' = Some (PInt 1)"
      by (rule one_way)
  next
    assume h: "\<forall>parsed. urlparse L url = Inr parsed \<longrightarrow>
        is_official L ?D (py_lower (netloc parsed)) = is_official_domain ?X (py_lower (netloc parsed))"
    from agree[OF h] show "extract_features L ?D url ''IsOfficialDomain'' =
        extract_all_features L ?X url ''IsOfficialDomain''" by (rule conjunct1)
    from agree[OF h] show "extract_features L ?D url ''NumSensitiveWords'' =
        extract_all_features L ?X url ''NumSensitiveWords''" by (rule conjunct2)
  qed
qed

text \<open>On \<^verbatim>\<open>http://ebay.com\<close> both extractors give \<open>UrlLength = 15\<close>.\<close>

theorem extractors_agree_outside_policy_witness:
  "''UrlLength'' \<notin> {''IsOfficialDomain'', ''BrandSpoofing'', ''NumSensitiveWords''} \<and>
   extract_features std_libs (PhishingDetector sample_schema) ''http://ebay.com'' ''UrlLength'' = Some (PInt 15) \<and>
   extract_all_features std_libs (URLFeatureExtractor sample_schema) ''http://ebay.com'' ''UrlLength'' = Some (PInt 15)"
proof -
  have parse: "urlparse std_libs ''http://ebay.com'' =
      Inr \<lparr>scheme = ''http'', netloc = ''ebay.com'', path = [], query = []\<rparr>"
    by (simp add: run_ebay std_libs_simps)
  have notin: "''UrlLength'' \<notin> {''IsOfficialDomain'', ''BrandSpoofing'', ''NumSensitiveWords''}"
    by simp
  have "extract_features std_libs (PhishingDetector sample_schema) ''http://ebay.com'' ''UrlLength'' =
        extract_all_features std_libs (URLFeatureExtractor sample_schema) ''http://ebay.com'' ''UrlLength''"
    by (rule extractors_agree_outside_policy[of std_libs sample_schema "''http://ebay.com''",
          THEN conjunct1, rule_format, OF notin])
  moreover have "extract_all_features std_libs (URLFeatureExtractor sample_schema) ''http://ebay.com'' ''UrlLength'' = Some (PInt 15)"
    by (simp add: extract_all_features_url_length[OF parse])
  ultimately show ?thesis by simp
qed

end
